theory Spec2Isabelle
  imports Main "HOL-Library.Word"
begin

unbundle bit_operations_syntax

section \<open>Collaborators of the refiner: scheme traits, crease rules, vertex tags\<close>

text \<open>
  The source file far/topologyRefiner.cpp uses the subdivision-scheme traits of Sdc, the
  crease rules of Sdc::Crease and the topology level of Vtr through their query
  interfaces. Their declarations are in headers; they are represented here by the data the
  refiner reads from them.
\<close>

datatype SchemeType = SCHEME_BILINEAR | SCHEME_CATMARK | SCHEME_LOOP

datatype Split = SPLIT_TO_QUADS | SPLIT_TO_TRIS | SPLIT_HYBRID

type_synonym SdcOptions = nat

text \<open>
  The static lookups of Sdc::SchemeTypeTraits are taken as a table that the operations
  receive as an argument, so every result below holds for any such table.
\<close>

record SchemeTypeTraits =
  GetTopologicalSplitType :: "SchemeType \<Rightarrow> Split"
  GetRegularFaceSize :: "SchemeType \<Rightarrow> nat"
  GetLocalNeighborhoodSize :: "SchemeType \<Rightarrow> nat"

text \<open>
  Modelled from the spec: the table of scheme traits of sdc/scheme.h, used for concrete
  runs only: the regular face size is 4 for quad-split and 3 for triangle-split schemes,
  and the bilinear scheme has no influence beyond the face.
\<close>

definition sdcTraits :: SchemeTypeTraits where
  "sdcTraits =
     \<lparr> GetTopologicalSplitType =
         (\<lambda>t. case t of SCHEME_LOOP \<Rightarrow> SPLIT_TO_TRIS | _ \<Rightarrow> SPLIT_TO_QUADS),
       GetRegularFaceSize = (\<lambda>t. case t of SCHEME_LOOP \<Rightarrow> 3 | _ \<Rightarrow> 4),
       GetLocalNeighborhoodSize = (\<lambda>t. case t of SCHEME_BILINEAR \<Rightarrow> 0 | _ \<Rightarrow> 1) \<rparr>"

text \<open>
  Modelled from the spec: the crease rules of Sdc::Crease (sdc/crease.h): the per-vertex
  classification smooth, dart, crease or corner, one bit each in a 4-bit field, so that the
  rules of the corners of a face combine by bitwise OR.
\<close>

type_synonym Rule = "4 word"

definition RULE_SMOOTH :: Rule where "RULE_SMOOTH = 1"
definition RULE_DART :: Rule where "RULE_DART = 2"
definition RULE_CREASE :: Rule where "RULE_CREASE = 4"
definition RULE_CORNER :: Rule where "RULE_CORNER = 8"

text \<open>
  Vtr::internal::Level::VTag, restricted to the bit fields that the refiner reads.
\<close>

record VTag =
  nonManifold :: bool
  xordinary :: bool
  boundary :: bool
  corner :: bool
  infSharp :: bool
  semiSharp :: bool
  semiSharpEdges :: bool
  rule :: Rule
  incomplete :: bool
  infSharpEdges :: bool
  infIrregular :: bool

definition VTag_or :: "VTag \<Rightarrow> VTag \<Rightarrow> VTag" where
  "VTag_or a b =
     \<lparr> nonManifold = nonManifold a \<or> nonManifold b,
       xordinary = xordinary a \<or> xordinary b,
       boundary = boundary a \<or> boundary b,
       corner = corner a \<or> corner b,
       infSharp = infSharp a \<or> infSharp b,
       semiSharp = semiSharp a \<or> semiSharp b,
       semiSharpEdges = semiSharpEdges a \<or> semiSharpEdges b,
       rule = rule a OR rule b,
       incomplete = incomplete a \<or> incomplete b,
       infSharpEdges = infSharpEdges a \<or> infSharpEdges b,
       infIrregular = infIrregular a \<or> infIrregular b \<rparr>"

definition VTag_clear :: VTag where
  "VTag_clear =
     \<lparr> nonManifold = False, xordinary = False, boundary = False, corner = False,
       infSharp = False, semiSharp = False, semiSharpEdges = False, rule = 0,
       incomplete = False, infSharpEdges = False, infIrregular = False \<rparr>"

text \<open>
  VTag::BitwiseOr(vTags, size) starts from the first tag and ORs the others into it. The
  source reads vTags[0] whatever the size; for a face without vertices the model gives the
  cleared tag.
\<close>

fun BitwiseOr :: "VTag list \<Rightarrow> VTag" where
  "BitwiseOr [] = VTag_clear"
| "BitwiseOr (t # ts) = foldl VTag_or t ts"

section \<open>The topology level, as the refiner queries it\<close>

record Level =
  getDepth :: nat
  getNumVertices :: nat
  getNumEdges :: nat
  getNumFaces :: nat
  getNumFaceVerticesTotal :: nat
  getMaxValence :: nat
  getFaceVertices :: "nat \<Rightarrow> nat list"
  getVertexFaces :: "nat \<Rightarrow> nat list"
  getVertexTag :: "nat \<Rightarrow> VTag"
  isFaceHole :: "nat \<Rightarrow> bool"
  isSingleCreasePatch :: "nat \<Rightarrow> bool"
  getNumFVarChannels :: nat
  getNumFVarValues :: "nat \<Rightarrow> nat"
  isLinear :: "nat \<Rightarrow> bool"
  doesFaceFVarTopologyMatch :: "nat \<Rightarrow> nat \<Rightarrow> bool"
  getVertexCompositeFVarVTag :: "nat \<Rightarrow> nat \<Rightarrow> VTag"

text \<open>The level that \<open>new Vtr::internal::Level\<close> creates: no components, depth 0.\<close>

definition Level_new :: Level where
  "Level_new =
     \<lparr> getDepth = 0, getNumVertices = 0, getNumEdges = 0, getNumFaces = 0,
       getNumFaceVerticesTotal = 0, getMaxValence = 0,
       getFaceVertices = (\<lambda>f. []), getVertexFaces = (\<lambda>v. []),
       getVertexTag = (\<lambda>v. VTag_clear), isFaceHole = (\<lambda>f. False),
       isSingleCreasePatch = (\<lambda>f. False), getNumFVarChannels = 0,
       getNumFVarValues = (\<lambda>c. 0), isLinear = (\<lambda>c. True),
       doesFaceFVarTopologyMatch = (\<lambda>f c. True),
       getVertexCompositeFVarVTag = (\<lambda>v c. VTag_clear) \<rparr>"

text \<open>
  Level::getFaceVTags(face, vTags) copies the tag of each vertex of the face, in the order
  of the face's vertices.
\<close>

definition getFaceVTags :: "Level \<Rightarrow> nat \<Rightarrow> VTag list" where
  "getFaceVTags level face = map (getVertexTag level) (getFaceVertices level face)"

section \<open>FeatureMask\<close>

text \<open>
  The class holds eleven one-bit fields in one \<open>unsigned int\<close>, and Clear and IsEmpty read
  and write that integer as a whole. The model is the 32-bit integer itself; the fields
  are its bits 0 to 10 in the order of declaration, and bits 11 to 31 belong to no field.
\<close>

type_synonym FeatureMask = "32 word"

definition assignBit :: "nat \<Rightarrow> bool \<Rightarrow> FeatureMask \<Rightarrow> FeatureMask" where
  "assignBit n b m = (if b then set_bit n m else unset_bit n m)"

definition selectXOrdinaryInterior :: "FeatureMask \<Rightarrow> bool" where
  "selectXOrdinaryInterior m = bit m 0"
definition selectXOrdinaryBoundary :: "FeatureMask \<Rightarrow> bool" where
  "selectXOrdinaryBoundary m = bit m 1"
definition selectSemiSharpSingle :: "FeatureMask \<Rightarrow> bool" where
  "selectSemiSharpSingle m = bit m 2"
definition selectSemiSharpNonSingle :: "FeatureMask \<Rightarrow> bool" where
  "selectSemiSharpNonSingle m = bit m 3"
definition selectInfSharpRegularCrease :: "FeatureMask \<Rightarrow> bool" where
  "selectInfSharpRegularCrease m = bit m 4"
definition selectInfSharpRegularCorner :: "FeatureMask \<Rightarrow> bool" where
  "selectInfSharpRegularCorner m = bit m 5"
definition selectInfSharpIrregularDart :: "FeatureMask \<Rightarrow> bool" where
  "selectInfSharpIrregularDart m = bit m 6"
definition selectInfSharpIrregularCrease :: "FeatureMask \<Rightarrow> bool" where
  "selectInfSharpIrregularCrease m = bit m 7"
definition selectInfSharpIrregularCorner :: "FeatureMask \<Rightarrow> bool" where
  "selectInfSharpIrregularCorner m = bit m 8"
definition selectNonManifold :: "FeatureMask \<Rightarrow> bool" where
  "selectNonManifold m = bit m 9"
definition selectFVarFeatures :: "FeatureMask \<Rightarrow> bool" where
  "selectFVarFeatures m = bit m 10"

definition Clear :: "FeatureMask \<Rightarrow> FeatureMask" where
  "Clear m = 0"

definition IsEmpty :: "FeatureMask \<Rightarrow> bool" where
  "IsEmpty m = (m = 0)"

text \<open>
  TopologyRefiner::AdaptiveOptions. The two levels are 4-bit fields of the source, numbers
  from 0 to 15.
\<close>

record AdaptiveOptions =
  isolationLevel :: nat
  secondaryLevel :: nat
  useSingleCreasePatch :: bool
  useInfSharpPatch :: bool
  considerFVarChannels :: bool
  orderVerticesFromFacesFirst :: bool

definition InitializeFeatures ::
  "SchemeTypeTraits \<Rightarrow> AdaptiveOptions \<Rightarrow> SchemeType \<Rightarrow> FeatureMask \<Rightarrow> FeatureMask" where
  "InitializeFeatures traits options subdType m =
     (let useSingleCrease =
            (useSingleCreasePatch options \<and> GetRegularFaceSize traits subdType = 4);
          \<comment> \<open>selectXOrdinaryInterior\<close>
          m = assignBit 0 True m;
          \<comment> \<open>selectXOrdinaryBoundary\<close>
          m = assignBit 1 True m;
          \<comment> \<open>selectSemiSharpSingle\<close>
          m = assignBit 2 (\<not> useSingleCrease) m;
          \<comment> \<open>selectSemiSharpNonSingle\<close>
          m = assignBit 3 True m;
          \<comment> \<open>selectInfSharpRegularCrease\<close>
          m = assignBit 4 (\<not> (useInfSharpPatch options \<or> useSingleCrease)) m;
          \<comment> \<open>selectInfSharpRegularCorner\<close>
          m = assignBit 5 (\<not> useInfSharpPatch options) m;
          \<comment> \<open>selectInfSharpIrregularDart\<close>
          m = assignBit 6 True m;
          \<comment> \<open>selectInfSharpIrregularCrease\<close>
          m = assignBit 7 True m;
          \<comment> \<open>selectInfSharpIrregularCorner\<close>
          m = assignBit 8 True m;
          \<comment> \<open>selectNonManifold\<close>
          m = assignBit 9 True m;
          \<comment> \<open>selectFVarFeatures\<close>
          m = assignBit 10 (considerFVarChannels options) m
      in m)"

definition ReduceFeatures :: "AdaptiveOptions \<Rightarrow> FeatureMask \<Rightarrow> FeatureMask" where
  "ReduceFeatures options m =
     \<comment> \<open>selectXOrdinaryInterior\<close>
     (let m = assignBit 0 False m;
          \<comment> \<open>selectXOrdinaryBoundary\<close>
          m = assignBit 1 False m
      in if useInfSharpPatch options
         \<comment> \<open>selectInfSharpRegularCrease\<close>
         then (let m = assignBit 4 False m;
                   \<comment> \<open>selectInfSharpRegularCorner\<close>
                   m = assignBit 5 False m;
                   \<comment> \<open>selectInfSharpIrregularDart\<close>
                   m = assignBit 6 False m;
                   \<comment> \<open>selectInfSharpIrregularCrease\<close>
                   m = assignBit 7 False m
               in m)
         else m)"

text \<open>
  The default constructor clears the integer. The constructor from options only assigns
  the eleven fields, so bits 11 to 31 keep whatever the storage held: \<open>storage\<close>.
\<close>

definition FeatureMask_default :: "FeatureMask \<Rightarrow> FeatureMask" where
  "FeatureMask_default storage = Clear storage"

definition FeatureMask_init ::
  "SchemeTypeTraits \<Rightarrow> FeatureMask \<Rightarrow> AdaptiveOptions \<Rightarrow> SchemeType \<Rightarrow> FeatureMask" where
  "FeatureMask_init traits storage options sType =
     InitializeFeatures traits options sType storage"

section \<open>Face classification\<close>

definition doesInfSharpFaceHaveFeatures :: "VTag \<Rightarrow> FeatureMask \<Rightarrow> bool" where
  "doesInfSharpFaceHaveFeatures compVTag featureMask =
     (if infIrregular compVTag then
        (if rule compVTag AND RULE_CORNER \<noteq> 0 then selectInfSharpIrregularCorner featureMask
         else if rule compVTag AND RULE_CREASE \<noteq> 0 then
           (if boundary compVTag then selectXOrdinaryBoundary featureMask
            else selectInfSharpIrregularCrease featureMask)
         else if rule compVTag AND RULE_DART \<noteq> 0 then selectInfSharpIrregularDart featureMask
         else False)
      else if boundary compVTag then
        (if rule compVTag AND RULE_CORNER \<noteq> 0 then
           (if corner compVTag then False else selectInfSharpRegularCorner featureMask)
         else False)
      else
        (if rule compVTag AND RULE_CORNER \<noteq> 0 then selectInfSharpRegularCorner featureMask
         else selectInfSharpRegularCrease featureMask))"

text \<open>
  The source gathers the corner tags into an array of four; the faces that reach this
  function are regular ones. Where the source falls through the extraordinary-vertex test,
  the model continues with \<open>rest\<close>, the tests that follow it in the source.
\<close>

definition doesFaceHaveFeatures :: "Level \<Rightarrow> nat \<Rightarrow> FeatureMask \<Rightarrow> bool" where
  "doesFaceHaveFeatures level face featureMask =
     (if IsEmpty featureMask then False
      else
        (let vTags = getFaceVTags level face;
             compFaceVTag = BitwiseOr vTags;
             rest =
               (if rule compFaceVTag = RULE_SMOOTH then False
                else if rule compFaceVTag AND RULE_SMOOTH = 0 then True
                else if semiSharp compFaceVTag \<or> semiSharpEdges compFaceVTag then
                  (if selectSemiSharpSingle featureMask \<and> selectSemiSharpNonSingle featureMask
                   then True
                   else if isSingleCreasePatch level face
                   then selectSemiSharpSingle featureMask
                   else selectSemiSharpNonSingle featureMask)
                else if infSharp compFaceVTag \<or> infSharpEdges compFaceVTag then
                  doesInfSharpFaceHaveFeatures compFaceVTag featureMask
                else False)
         in if incomplete compFaceVTag then False
            else if nonManifold compFaceVTag \<and> selectNonManifold featureMask then True
            else if xordinary compFaceVTag \<and> selectXOrdinaryInterior featureMask then
              (if rule compFaceVTag = RULE_SMOOTH then True
               else if getDepth level < 2
                       \<and> list_ex (\<lambda>t. xordinary t \<and> rule t = RULE_SMOOTH) vTags then True
               else rest)
            else rest))"

text \<open>
  The source asserts that the face-varying topology of the face does not match in the
  channel; the selection loop calls the function for such faces only.
\<close>

definition doesFaceHaveDistinctFaceVaryingFeatures ::
  "Level \<Rightarrow> nat \<Rightarrow> FeatureMask \<Rightarrow> nat \<Rightarrow> bool" where
  "doesFaceHaveDistinctFaceVaryingFeatures level face featureMask fvarChannel =
     (let fVerts = getFaceVertices level face;
          vTags = map (\<lambda>v. getVertexCompositeFVarVTag level v fvarChannel) fVerts;
          compVTag = BitwiseOr vTags
      in if nonManifold compVTag \<and> selectNonManifold featureMask then True
         else if xordinary compVTag \<and> selectXOrdinaryInterior featureMask then True
         else if rule compVTag AND RULE_SMOOTH = 0 then True
         else doesInfSharpFaceHaveFeatures compVTag featureMask)"

section \<open>The sparse selector and the refinement step\<close>

record RefinementOptions =
  sparse :: bool
  faceVertsFirst :: bool
  minimalTopology :: bool

datatype RefinementKind = QuadRefinementKind | TriRefinementKind

text \<open>
  A refinement step records the class it was constructed as, its parent level, the scheme
  options, the options that \<open>refine\<close> was called with (None before the call) and the
  parent faces marked by a sparse selector.
\<close>

record Refinement =
  kind :: RefinementKind
  parent :: Level
  schemeOptions :: SdcOptions
  refinedWith :: "RefinementOptions option"
  selection :: "nat set"

definition QuadRefinement :: "Level \<Rightarrow> SdcOptions \<Rightarrow> Refinement" where
  "QuadRefinement parentLevel opts =
     \<lparr> kind = QuadRefinementKind, parent = parentLevel, schemeOptions = opts,
       refinedWith = None, selection = {} \<rparr>"

definition TriRefinement :: "Level \<Rightarrow> SdcOptions \<Rightarrow> Refinement" where
  "TriRefinement parentLevel opts =
     \<lparr> kind = TriRefinementKind, parent = parentLevel, schemeOptions = opts,
       refinedWith = None, selection = {} \<rparr>"

text \<open>
  Modelled from the spec: Refinement::getRegularFaceSize (vtr/refinement.h), the regular
  face size of the split: 4 for the quad split, 3 for the triangle split.
\<close>

definition getRegularFaceSize :: "Refinement \<Rightarrow> nat" where
  "getRegularFaceSize refinement =
     (case kind refinement of QuadRefinementKind \<Rightarrow> 4 | TriRefinementKind \<Rightarrow> 3)"

text \<open>
  Modelled from the spec: the Sparse Selector (vtr/sparseSelector.h), an accumulator of the
  parent faces chosen for refinement, with \<open>selectFace\<close>, \<open>isSelectionEmpty\<close> and access
  to its refinement step.
\<close>

record SparseSelector =
  getRefinement :: Refinement
  selectedFaces :: "nat set"

definition SparseSelector_new :: "Refinement \<Rightarrow> SparseSelector" where
  "SparseSelector_new refinement = \<lparr> getRefinement = refinement, selectedFaces = {} \<rparr>"

definition selectFace :: "SparseSelector \<Rightarrow> nat \<Rightarrow> SparseSelector" where
  "selectFace selector face = selector\<lparr> selectedFaces := insert face (selectedFaces selector) \<rparr>"

definition isSelectionEmpty :: "SparseSelector \<Rightarrow> bool" where
  "isSelectionEmpty selector = (selectedFaces selector = {})"

section \<open>Selection of the faces of one level\<close>

text \<open>
  The loop over the face-varying channels of one face:
  \<open>for (channel = 0; !selectFace && channel < numFVarChannels; ++channel)\<close>,
  entered with \<open>selectFace\<close> false.
\<close>

fun testFVarChannels :: "Level \<Rightarrow> nat \<Rightarrow> FeatureMask \<Rightarrow> nat list \<Rightarrow> bool" where
  "testFVarChannels level face featureMask [] = False"
| "testFVarChannels level face featureMask (channel # channels) =
     (let selectF =
            (if \<not> doesFaceFVarTopologyMatch level face channel
             then doesFaceHaveDistinctFaceVaryingFeatures level face featureMask channel
             else False)
      in if selectF then True else testFVarChannels level face featureMask channels)"

text \<open>The body of the loop over the faces in selectFeatureAdaptiveComponents.\<close>

definition inspectFace ::
  "Level \<Rightarrow> FeatureMask \<Rightarrow> bool \<Rightarrow> nat \<Rightarrow> nat \<Rightarrow> nat \<Rightarrow> nat \<Rightarrow> SparseSelector
     \<Rightarrow> SparseSelector" where
  "inspectFace level featureMask selectIrregularFaces numFVarChannels regularFaceSize
       neighborhood face selector =
     (if isFaceHole level face then selector
      else if selectIrregularFaces
              \<and> length (getFaceVertices level face) \<noteq> regularFaceSize then
        (if neighborhood = 0 then selectFace selector face
         else fold (\<lambda>v sel. fold (\<lambda>f s. selectFace s f) (getVertexFaces level v) sel)
                (getFaceVertices level face) selector)
      else
        (let selectF = doesFaceHaveFeatures level face featureMask;
             selectF =
               (if \<not> selectF \<and> selectFVarFeatures featureMask
                then testFVarChannels level face featureMask [0..<numFVarChannels]
                else selectF)
         in if selectF then selectFace selector face else selector))"

definition selectFeatureAdaptiveComponents ::
  "SchemeTypeTraits \<Rightarrow> SchemeType \<Rightarrow> SparseSelector \<Rightarrow> FeatureMask \<Rightarrow> SparseSelector" where
  "selectFeatureAdaptiveComponents traits subdivT selector featureMask =
     (let level = parent (getRefinement selector);
          levelDepth = getDepth level;
          selectIrregularFaces = (levelDepth = 0)
      in if IsEmpty featureMask \<and> \<not> selectIrregularFaces then selector
         else
           (let numFVarChannels =
                  (if selectFVarFeatures featureMask then getNumFVarChannels level else 0);
                regularFaceSize = getRegularFaceSize (getRefinement selector);
                neighborhood = GetLocalNeighborhoodSize traits subdivT
            in fold (inspectFace level featureMask selectIrregularFaces numFVarChannels
                       regularFaceSize neighborhood)
                 [0..<getNumFaces level] selector))"

section \<open>The refiner\<close>

datatype ErrorType =
  FAR_NO_ERROR | FAR_FATAL_ERROR | FAR_INTERNAL_CODING_ERROR | FAR_CODING_ERROR
  | FAR_RUNTIME_ERROR

type_synonym FarError = "ErrorType \<times> string"

text \<open>
  TopologyRefiner::UniformOptions; the refinement level is a 4-bit field of the source.
  The field orderVerticesFromFacesFirst of these options carries the suffix U here, since
  the adaptive options have a field of the same name.
\<close>

record UniformOptions =
  refinementLevel :: nat
  orderVerticesFromFacesFirstU :: bool
  fullTopologyInLastLevel :: bool

text \<open>
  One entry of the level view: the refinement that produced the level, the level, and the
  refinement that consumes it. The source holds pointers to the refiner's own objects;
  the model holds their positions in \<open>refinements\<close> and \<open>levels\<close>, None for a null
  pointer.
\<close>

record FarLevel =
  refToParent :: "nat option"
  levelPtr :: "nat option"
  refToChild :: "nat option"

definition FarLevel_new :: FarLevel where
  "FarLevel_new = \<lparr> refToParent = None, levelPtr = None, refToChild = None \<rparr>"

record TopologyRefiner =
  subdivType :: SchemeType
  subdivOptions :: SdcOptions
  isUniform :: bool
  hasHoles :: bool
  maxLevel :: nat
  uniformOptions :: UniformOptions
  adaptiveOptions :: AdaptiveOptions
  totalVertices :: nat
  totalEdges :: nat
  totalFaces :: nat
  totalFaceVertices :: nat
  maxValence :: nat
  levels :: "Level list"
  refinements :: "Refinement list"
  farLevels :: "FarLevel list"

text \<open>
  Modelled from the spec: the constructors \<open>UniformOptions(0)\<close> and
  \<open>AdaptiveOptions(0)\<close> of far/topologyRefiner.h, which the refiner's constructor calls:
  level 0 and every flag unset, the secondary level at its largest value.
\<close>

definition UniformOptions_new :: "nat \<Rightarrow> UniformOptions" where
  "UniformOptions_new l =
     \<lparr> refinementLevel = l, orderVerticesFromFacesFirstU = False,
       fullTopologyInLastLevel = False \<rparr>"

definition AdaptiveOptions_new :: "nat \<Rightarrow> AdaptiveOptions" where
  "AdaptiveOptions_new l =
     \<lparr> isolationLevel = l, secondaryLevel = 15, useSingleCreasePatch = False,
       useInfSharpPatch = False, considerFVarChannels = False,
       orderVerticesFromFacesFirst = False \<rparr>"

definition resize :: "nat \<Rightarrow> 'a \<Rightarrow> 'a list \<Rightarrow> 'a list" where
  "resize n d xs = take n xs @ replicate (n - length xs) d"

definition assembleFarLevels :: "TopologyRefiner \<Rightarrow> TopologyRefiner" where
  "assembleFarLevels r =
     (let fl = resize (length (levels r)) FarLevel_new (farLevels r);
          fl = fl[0 := \<lparr> refToParent = None, levelPtr = Some 0, refToChild = None \<rparr>];
          nRefinements = length (refinements r)
      in if nRefinements \<noteq> 0 then
           (let fl = fl[0 := (fl ! 0)\<lparr> refToChild := Some 0 \<rparr>];
                fl = fold (\<lambda>i fl. fl[i := \<lparr> refToParent = Some (i - 1), levelPtr = Some i,
                                             refToChild = Some i \<rparr>])
                       [1..<nRefinements] fl;
                fl = fl[nRefinements := \<lparr> refToParent = Some (nRefinements - 1),
                                          levelPtr = Some nRefinements, refToChild = None \<rparr>]
            in r\<lparr> farLevels := fl \<rparr>)
         else r\<lparr> farLevels := fl \<rparr>)"

definition TopologyRefiner_new :: "SchemeType \<Rightarrow> SdcOptions \<Rightarrow> TopologyRefiner" where
  "TopologyRefiner_new schemeType schemeOpts =
     assembleFarLevels
       \<lparr> subdivType = schemeType, subdivOptions = schemeOpts, isUniform = True,
         hasHoles = False, maxLevel = 0, uniformOptions = UniformOptions_new 0,
         adaptiveOptions = AdaptiveOptions_new 0, totalVertices = 0, totalEdges = 0,
         totalFaces = 0, totalFaceVertices = 0, maxValence = 0,
         levels = [Level_new], refinements = [], farLevels = [] \<rparr>"

definition getLevel :: "TopologyRefiner \<Rightarrow> nat \<Rightarrow> Level" where
  "getLevel r i = levels r ! i"

text \<open>
  initializeInventory asserts that the base level is the only level; Unrefine calls it
  after the resize to one level.
\<close>

definition initializeInventory :: "TopologyRefiner \<Rightarrow> TopologyRefiner" where
  "initializeInventory r =
     (if levels r \<noteq> [] then
        (let baseLevel = levels r ! 0
         in r\<lparr> totalVertices := getNumVertices baseLevel,
               totalEdges := getNumEdges baseLevel,
               totalFaces := getNumFaces baseLevel,
               totalFaceVertices := getNumFaceVerticesTotal baseLevel,
               maxValence := getMaxValence baseLevel \<rparr>)
      else r\<lparr> totalVertices := 0, totalEdges := 0, totalFaces := 0,
              totalFaceVertices := 0, maxValence := 0 \<rparr>)"

definition updateInventory :: "TopologyRefiner \<Rightarrow> Level \<Rightarrow> TopologyRefiner" where
  "updateInventory r newLevel =
     r\<lparr> totalVertices := totalVertices r + getNumVertices newLevel,
        totalEdges := totalEdges r + getNumEdges newLevel,
        totalFaces := totalFaces r + getNumFaces newLevel,
        totalFaceVertices := totalFaceVertices r + getNumFaceVerticesTotal newLevel,
        maxValence := max (maxValence r) (getMaxValence newLevel) \<rparr>"

definition appendLevel :: "TopologyRefiner \<Rightarrow> Level \<Rightarrow> TopologyRefiner" where
  "appendLevel r newLevel = updateInventory (r\<lparr> levels := levels r @ [newLevel] \<rparr>) newLevel"

definition appendRefinement :: "TopologyRefiner \<Rightarrow> Refinement \<Rightarrow> TopologyRefiner" where
  "appendRefinement r newRefinement = r\<lparr> refinements := refinements r @ [newRefinement] \<rparr>"

definition Unrefine :: "TopologyRefiner \<Rightarrow> TopologyRefiner" where
  "Unrefine r =
     (let r = (if levels r \<noteq> [] then initializeInventory (r\<lparr> levels := take 1 (levels r) \<rparr>)
               else r);
          r = r\<lparr> refinements := [] \<rparr>
      in assembleFarLevels r)"

definition GetNumFVarValuesTotal :: "TopologyRefiner \<Rightarrow> nat \<Rightarrow> nat" where
  "GetNumFVarValuesTotal r channel =
     fold (\<lambda>l sum. sum + getNumFVarValues l channel) (levels r) 0"

text \<open>
  Modelled from the spec: the external topology builder, which populates the base level
  after construction and before any refinement call, and has the refiner take its
  inventory from it.
\<close>

definition populateBaseLevel :: "Level \<Rightarrow> TopologyRefiner \<Rightarrow> TopologyRefiner" where
  "populateBaseLevel baseLevel r = initializeInventory (r\<lparr> levels := (levels r)[0 := baseLevel] \<rparr>)"

subsection \<open>Uniform refinement\<close>

text \<open>
  The geometric split of a level is the work of Vtr::internal::Refinement::refine, outside
  this source file. The operations take it as the argument \<open>refine\<close>: the child level
  that a refinement step produces under given options.
\<close>

type_synonym RefineFn = "Refinement \<Rightarrow> RefinementOptions \<Rightarrow> Level"

function RefineUniform_loop ::
  "RefineFn \<Rightarrow> Split \<Rightarrow> UniformOptions \<Rightarrow> nat \<Rightarrow> TopologyRefiner \<Rightarrow> TopologyRefiner" where
  "RefineUniform_loop refine splitType options i r =
     (if i \<le> refinementLevel options then
        (let refineOptions =
               \<lparr> sparse = False,
                 faceVertsFirst = orderVerticesFromFacesFirstU options,
                 minimalTopology =
                   (if fullTopologyInLastLevel options then False
                    else i = refinementLevel options) \<rparr>;
             parentLevel = getLevel r (i - 1);
             refinement =
               (if splitType = SPLIT_TO_QUADS then QuadRefinement parentLevel (subdivOptions r)
                else TriRefinement parentLevel (subdivOptions r));
             refinement = refinement\<lparr> refinedWith := Some refineOptions \<rparr>;
             childLevel = refine refinement refineOptions
         in RefineUniform_loop refine splitType options (i + 1)
              (appendRefinement (appendLevel r childLevel) refinement))
      else r)"
  by pat_completeness auto
termination
  by (relation "measure (\<lambda>(refine, splitType, options, i, r). Suc (refinementLevel options) - i)")
    auto

definition RefineUniform ::
  "SchemeTypeTraits \<Rightarrow> RefineFn \<Rightarrow> UniformOptions \<Rightarrow> TopologyRefiner
     \<Rightarrow> FarError option \<times> TopologyRefiner" where
  "RefineUniform traits refine options r =
     (if getNumVertices (levels r ! 0) = 0 then
        (Some (FAR_RUNTIME_ERROR,
           ''Failure in TopologyRefiner::RefineUniform() -- base level is uninitialized.''), r)
      else if refinements r \<noteq> [] then
        (Some (FAR_RUNTIME_ERROR,
           ''Failure in TopologyRefiner::RefineUniform() -- previous refinements already applied.''),
         r)
      else
        (let r = r\<lparr> uniformOptions := options \<rparr>;
             r = r\<lparr> isUniform := True \<rparr>;
             r = r\<lparr> maxLevel := refinementLevel options \<rparr>;
             splitType = GetTopologicalSplitType traits (subdivType r);
             r = RefineUniform_loop refine splitType options 1 r
         in (None, assembleFarLevels r)))"

subsection \<open>Adaptive refinement\<close>

text \<open>
  The two feature masks of a run, computed before the loop over the levels: the mask for
  the levels up to the shallow level and the mask for the deeper ones. \<open>storage\<close> is
  what the memory of the first mask held before its constructor ran.
\<close>

definition adaptiveFeatureMasks ::
  "SchemeTypeTraits \<Rightarrow> FeatureMask \<Rightarrow> AdaptiveOptions \<Rightarrow> SchemeType \<Rightarrow> Level
     \<Rightarrow> FeatureMask \<times> FeatureMask" where
  "adaptiveFeatureMasks traits storage options subdivT baseLevel =
     (let shallowLevel = min (secondaryLevel options) (isolationLevel options);
          deeperLevel = isolationLevel options;
          potentialMaxLevel = deeperLevel;
          moreFeaturesMask = FeatureMask_init traits storage options subdivT;
          lessFeaturesMask = moreFeaturesMask;
          lessFeaturesMask =
            (if shallowLevel < potentialMaxLevel then ReduceFeatures options lessFeaturesMask
             else lessFeaturesMask)
      in if GetLocalNeighborhoodSize traits subdivT = 0 then
           (Clear moreFeaturesMask, Clear lessFeaturesMask)
         else if selectFVarFeatures moreFeaturesMask then
           (let nonLinearChannelsPresent =
                  list_ex (\<lambda>channel. \<not> isLinear baseLevel channel)
                    [0..<getNumFVarChannels baseLevel]
            in if \<not> nonLinearChannelsPresent then
                 \<comment> \<open>selectFVarFeatures = false in both masks\<close>
                 (assignBit 10 False moreFeaturesMask, assignBit 10 False lessFeaturesMask)
               else (moreFeaturesMask, lessFeaturesMask))
         else (moreFeaturesMask, lessFeaturesMask))"

text \<open>
  One pass of the loop of RefineAdaptive at depth \<open>i\<close>: the selector after the
  classification of the faces of the parent level.
\<close>

definition adaptiveSelector ::
  "SchemeTypeTraits \<Rightarrow> Split \<Rightarrow> nat \<Rightarrow> FeatureMask \<Rightarrow> FeatureMask \<Rightarrow> nat
     \<Rightarrow> TopologyRefiner \<Rightarrow> SparseSelector" where
  "adaptiveSelector traits splitType shallowLevel moreFeaturesMask lessFeaturesMask i r =
     (let parentLevel = getLevel r (i - 1);
          refinement =
            (if splitType = SPLIT_TO_QUADS then QuadRefinement parentLevel (subdivOptions r)
             else TriRefinement parentLevel (subdivOptions r));
          selector = SparseSelector_new refinement
      in selectFeatureAdaptiveComponents traits (subdivType r) selector
           (if i \<le> shallowLevel then moreFeaturesMask else lessFeaturesMask))"

function RefineAdaptive_loop ::
  "SchemeTypeTraits \<Rightarrow> RefineFn \<Rightarrow> Split \<Rightarrow> RefinementOptions \<Rightarrow> nat \<Rightarrow> nat
     \<Rightarrow> FeatureMask \<Rightarrow> FeatureMask \<Rightarrow> nat \<Rightarrow> TopologyRefiner \<Rightarrow> TopologyRefiner" where
  "RefineAdaptive_loop traits refine splitType refineOptions potentialMaxLevel shallowLevel
       moreFeaturesMask lessFeaturesMask i r =
     (if i \<le> potentialMaxLevel then
        (let selector =
               adaptiveSelector traits splitType shallowLevel moreFeaturesMask
                 lessFeaturesMask i r
         in if isSelectionEmpty selector then r
            else
              (let refinement =
                     (getRefinement selector)
                       \<lparr> selection := selectedFaces selector,
                         refinedWith := Some refineOptions \<rparr>;
                   childLevel = refine refinement refineOptions
               in RefineAdaptive_loop traits refine splitType refineOptions potentialMaxLevel
                    shallowLevel moreFeaturesMask lessFeaturesMask (i + 1)
                    (appendRefinement (appendLevel r childLevel) refinement)))
      else r)"
  by pat_completeness auto
termination
  by (relation "measure (\<lambda>(traits, refine, splitType, refineOptions, potentialMaxLevel,
         shallowLevel, moreFeaturesMask, lessFeaturesMask, i, r). Suc potentialMaxLevel - i)")
    auto

definition RefineAdaptive ::
  "SchemeTypeTraits \<Rightarrow> RefineFn \<Rightarrow> FeatureMask \<Rightarrow> AdaptiveOptions \<Rightarrow> TopologyRefiner
     \<Rightarrow> FarError option \<times> TopologyRefiner" where
  "RefineAdaptive traits refine storage options r =
     (if getNumVertices (levels r ! 0) = 0 then
        (Some (FAR_RUNTIME_ERROR,
           ''Failure in TopologyRefiner::RefineAdaptive() -- base level is uninitialized.''), r)
      else if refinements r \<noteq> [] then
        (Some (FAR_RUNTIME_ERROR,
           ''Failure in TopologyRefiner::RefineAdaptive() -- previous refinements already applied.''),
         r)
      else if subdivType r \<noteq> SCHEME_CATMARK then
        (Some (FAR_RUNTIME_ERROR,
           ''Failure in TopologyRefiner::RefineAdaptive() -- currently only supported for Catmark scheme.''),
         r)
      else
        (let r = r\<lparr> isUniform := False \<rparr>;
             r = r\<lparr> adaptiveOptions := options \<rparr>;
             shallowLevel = min (secondaryLevel options) (isolationLevel options);
             potentialMaxLevel = isolationLevel options;
             masks = adaptiveFeatureMasks traits storage options (subdivType r) (levels r ! 0);
             refineOptions =
               \<lparr> sparse = True, faceVertsFirst = orderVerticesFromFacesFirst options,
                 minimalTopology = False \<rparr>;
             splitType = GetTopologicalSplitType traits (subdivType r);
             r = RefineAdaptive_loop traits refine splitType refineOptions potentialMaxLevel
                   shallowLevel (fst masks) (snd masks) 1 r;
             r = r\<lparr> maxLevel := length (refinements r) \<rparr>
         in (None, assembleFarLevels r)))"

text \<open>
  The states of a refiner: the constructor, then the base level populated while it is the
  only level, and any sequence of RefineUniform, RefineAdaptive and Unrefine calls, each
  with any options and any geometric split.
\<close>

inductive reachable :: "SchemeTypeTraits \<Rightarrow> TopologyRefiner \<Rightarrow> bool"
  for traits :: SchemeTypeTraits where
  constructed: "reachable traits (TopologyRefiner_new schemeType schemeOpts)"
| populated:
    "reachable traits r \<Longrightarrow> length (levels r) = 1
       \<Longrightarrow> reachable traits (populateBaseLevel baseLevel r)"
| refinedUniform:
    "reachable traits r \<Longrightarrow> reachable traits (snd (RefineUniform traits refine uopts r))"
| refinedAdaptive:
    "reachable traits r
       \<Longrightarrow> reachable traits (snd (RefineAdaptive traits refine storage aopts r))"
| unrefined: "reachable traits r \<Longrightarrow> reachable traits (Unrefine r)"

section \<open>Properties stated over the flags of a mask\<close>

text \<open>The values of the eleven fields of a mask, in the order of declaration.\<close>

definition featureFlags :: "FeatureMask \<Rightarrow> bool list" where
  "featureFlags m =
     [selectXOrdinaryInterior m, selectXOrdinaryBoundary m, selectSemiSharpSingle m,
      selectSemiSharpNonSingle m, selectInfSharpRegularCrease m,
      selectInfSharpRegularCorner m, selectInfSharpIrregularDart m,
      selectInfSharpIrregularCrease m, selectInfSharpIrregularCorner m,
      selectNonManifold m, selectFVarFeatures m]"

text \<open>
  The masks that the code makes: a mask starts from the default constructor or from the
  constructor from options, on storage of any content, and is then changed by
  ReduceFeatures, by Clear, or by the assignment \<open>selectFVarFeatures = false\<close> of
  RefineAdaptive.
\<close>

inductive madeMask :: "FeatureMask \<Rightarrow> bool" where
  fromDefault: "madeMask (FeatureMask_default storage)"
| fromOptions: "madeMask (FeatureMask_init traits storage options sType)"
| reduced: "madeMask m \<Longrightarrow> madeMask (ReduceFeatures options m)"
| cleared: "madeMask m \<Longrightarrow> madeMask (Clear m)"
| fvarOff: "madeMask m \<Longrightarrow> madeMask (assignBit 10 False m)"

section \<open>Concrete tags and levels\<close>

text \<open>
  Tags and levels on which the operations are run below: a smooth interior corner, a corner
  on a crease along a boundary, and the aggregate of an irregular face with crease, corner
  and smooth corners; a level of depth 1 with one quad whose face-varying topology differs
  from the topology of the mesh in its only channel.
\<close>

definition smoothTag :: VTag where
  "smoothTag = VTag_clear\<lparr> rule := RULE_SMOOTH \<rparr>"

definition creaseBoundaryTag :: VTag where
  "creaseBoundaryTag =
     VTag_clear\<lparr> rule := RULE_CREASE, boundary := True, infSharpEdges := True \<rparr>"

definition irregularCreaseCornerTag :: VTag where
  "irregularCreaseCornerTag =
     VTag_clear\<lparr> rule := RULE_CREASE OR RULE_CORNER OR RULE_SMOOTH, infSharp := True,
       infSharpEdges := True, infIrregular := True \<rparr>"

definition seamQuad :: Level where
  "seamQuad =
     Level_new\<lparr> getDepth := 1, getNumVertices := 4, getNumEdges := 4, getNumFaces := 1,
       getNumFaceVerticesTotal := 4, getMaxValence := 2,
       getFaceVertices := (\<lambda>f. if f = 0 then [0, 1, 2, 3] else []),
       getVertexFaces := (\<lambda>v. if v < 4 then [0] else []),
       getVertexTag := (\<lambda>v. smoothTag),
       getNumFVarChannels := 1,
       getNumFVarValues := (\<lambda>c. 6),
       isLinear := (\<lambda>c. False),
       doesFaceFVarTopologyMatch := (\<lambda>f c. False),
       getVertexCompositeFVarVTag := (\<lambda>v c. if v = 0 then smoothTag else creaseBoundaryTag) \<rparr>"

text \<open>
  A quad of depth 0 with four smooth regular corners and no face-varying channel, and a
  geometric split for concrete runs, which keeps the components of the parent and
  increases the depth.
\<close>

definition plainQuad :: Level where
  "plainQuad =
     Level_new\<lparr> getNumVertices := 4, getNumEdges := 4, getNumFaces := 1,
       getNumFaceVerticesTotal := 4, getMaxValence := 2,
       getFaceVertices := (\<lambda>f. if f = 0 then [0, 1, 2, 3] else []),
       getVertexFaces := (\<lambda>v. if v < 4 then [0] else []),
       getVertexTag := (\<lambda>v. smoothTag) \<rparr>"

definition splitKeepingFaces :: RefineFn where
  "splitKeepingFaces refinement opts =
     (parent refinement)\<lparr> getDepth := Suc (getDepth (parent refinement)) \<rparr>"

text \<open>
  A mesh of depth 0 with a pentagon (face 0), a quad that shares an edge with it (face 1)
  and a quad that shares no vertex with it (face 2), all corners smooth and regular; and a
  quad of depth 1 whose corners are all marked incomplete and lie on a face-varying
  boundary of the only channel.
\<close>

definition pentagonMesh :: Level where
  "pentagonMesh =
     Level_new\<lparr> getNumVertices := 9, getNumEdges := 11, getNumFaces := 3,
       getNumFaceVerticesTotal := 13, getMaxValence := 3,
       getFaceVertices :=
         (\<lambda>f. if f = 0 then [0, 1, 2, 3, 4] else if f = 1 then [0, 1, 5, 6]
              else if f = 2 then [5, 6, 7, 8] else []),
       getVertexFaces :=
         (\<lambda>v. if v < 2 then [0, 1] else if v < 5 then [0] else if v < 7 then [1, 2]
              else if v < 9 then [2] else []),
       getVertexTag := (\<lambda>v. smoothTag) \<rparr>"

definition incompleteSeamQuad :: Level where
  "incompleteSeamQuad =
     seamQuad\<lparr> getVertexTag := (\<lambda>v. smoothTag\<lparr> incomplete := True \<rparr>),
       getVertexCompositeFVarVTag := (\<lambda>v c. creaseBoundaryTag\<lparr> incomplete := True \<rparr>) \<rparr>"

section \<open>The feature mask\<close>

lemmas select_defs =
  selectXOrdinaryInterior_def selectXOrdinaryBoundary_def selectSemiSharpSingle_def
  selectSemiSharpNonSingle_def selectInfSharpRegularCrease_def
  selectInfSharpRegularCorner_def selectInfSharpIrregularDart_def
  selectInfSharpIrregularCrease_def selectInfSharpIrregularCorner_def
  selectNonManifold_def selectFVarFeatures_def

lemma bit_assignBit:
  "n < 32 \<Longrightarrow> bit (assignBit n b m) k \<longleftrightarrow> (if k = n then b else bit m k)"
  by (simp add: assignBit_def bit_set_bit_iff bit_unset_bit_iff)

lemma drop_assignBit:
  "n < 11 \<Longrightarrow> drop_bit 11 (assignBit n b m) = drop_bit 11 m"
  by (rule bit_eqI) (simp add: bit_drop_bit_eq bit_assignBit)

lemma low_bits_cases:
  "(\<forall>k<11. P (k::nat)) \<longleftrightarrow>
     P 0 \<and> P 1 \<and> P 2 \<and> P 3 \<and> P 4 \<and> P 5 \<and> P 6 \<and> P 7 \<and> P 8 \<and> P 9 \<and> P 10"
  by (simp add: numeral_eq_Suc All_less_Suc conj_ac)

lemma flags_clear_iff:
  "featureFlags m = replicate 11 False \<longleftrightarrow> (\<forall>k<11. \<not> bit m k)"
  unfolding low_bits_cases
  by (simp add: featureFlags_def select_defs numeral_eq_Suc)

lemma word_zero_split:
  "(m :: 32 word) = 0 \<longleftrightarrow> drop_bit 11 m = 0 \<and> (\<forall>k<11. \<not> bit m k)"
proof
  assume "m = 0" then show "drop_bit 11 m = 0 \<and> (\<forall>k<11. \<not> bit m k)" by simp
next
  assume h: "drop_bit 11 m = 0 \<and> (\<forall>k<11. \<not> bit m k)"
  show "m = 0"
  proof (rule bit_eqI)
    fix k
    show "bit m k = bit (0 :: 32 word) k"
    proof (cases "k < 11")
      case True with h show ?thesis by simp
    next
      case False
      then have k: "k = 11 + (k - 11)" by simp
      have "\<not> bit (drop_bit 11 m) (k - 11)" using h by simp
      then have "\<not> bit m (11 + (k - 11))" by (simp add: bit_drop_bit_eq)
      with k show ?thesis by simp
    qed
  qed
qed

lemma IsEmpty_iff:
  "IsEmpty m \<longleftrightarrow> drop_bit 11 m = 0 \<and> featureFlags m = replicate 11 False"
  by (simp only: IsEmpty_def flags_clear_iff word_zero_split [of m])


lemma bit_InitializeFeatures_3:
  "bit (InitializeFeatures traits options t m) 3"
  by (simp add: InitializeFeatures_def Let_def bit_assignBit)

lemma bit_InitializeFeatures_0:
  "bit (InitializeFeatures traits options t m) 0"
  by (simp add: InitializeFeatures_def Let_def bit_assignBit)

lemma bit_ReduceFeatures_3: "bit (ReduceFeatures options m) 3 = bit m 3"
  by (simp add: ReduceFeatures_def Let_def bit_assignBit)

lemma nonempty_of_bit3:
  "bit m 3 \<Longrightarrow> (IsEmpty m \<longleftrightarrow> featureFlags m = replicate 11 False)"
  by (auto simp: IsEmpty_def featureFlags_def select_defs numeral_eq_Suc)

lemma adaptive_masks_cases:
  "adaptiveFeatureMasks traits storage options t base = (a, b) \<Longrightarrow>
     (a = 0 \<or> bit a 3) \<and> (b = 0 \<or> bit b 3)"
  by (auto simp: adaptiveFeatureMasks_def Let_def Clear_def FeatureMask_init_def
        bit_assignBit bit_InitializeFeatures_3 bit_ReduceFeatures_3
        split: if_splits)

lemma empty_of_zero: "IsEmpty 0 \<and> featureFlags 0 = replicate 11 False"
  by (simp add: IsEmpty_def featureFlags_def select_defs numeral_eq_Suc)

text \<open>
  C4: ReduceFeatures clears selectXOrdinaryInterior and selectXOrdinaryBoundary whatever
  the options; when useInfSharpPatch is set it also clears selectInfSharpRegularCrease,
  selectInfSharpRegularCorner, selectInfSharpIrregularDart and
  selectInfSharpIrregularCrease; selectInfSharpIrregularCorner, the two semi-sharp fields,
  selectNonManifold and selectFVarFeatures keep their values, and so do the bits of the
  integer that belong to no field.
\<close>

theorem ReduceFeatures_frame:
  "selectXOrdinaryInterior (ReduceFeatures options m) = False
   \<and> selectXOrdinaryBoundary (ReduceFeatures options m) = False
   \<and> selectInfSharpRegularCrease (ReduceFeatures options m)
       = (selectInfSharpRegularCrease m \<and> \<not> useInfSharpPatch options)
   \<and> selectInfSharpRegularCorner (ReduceFeatures options m)
       = (selectInfSharpRegularCorner m \<and> \<not> useInfSharpPatch options)
   \<and> selectInfSharpIrregularDart (ReduceFeatures options m)
       = (selectInfSharpIrregularDart m \<and> \<not> useInfSharpPatch options)
   \<and> selectInfSharpIrregularCrease (ReduceFeatures options m)
       = (selectInfSharpIrregularCrease m \<and> \<not> useInfSharpPatch options)
   \<and> selectInfSharpIrregularCorner (ReduceFeatures options m) = selectInfSharpIrregularCorner m
   \<and> selectSemiSharpSingle (ReduceFeatures options m) = selectSemiSharpSingle m
   \<and> selectSemiSharpNonSingle (ReduceFeatures options m) = selectSemiSharpNonSingle m
   \<and> selectNonManifold (ReduceFeatures options m) = selectNonManifold m
   \<and> selectFVarFeatures (ReduceFeatures options m) = selectFVarFeatures m
   \<and> drop_bit 11 (ReduceFeatures options m) = drop_bit 11 m"
  by (simp add: ReduceFeatures_def Let_def select_defs bit_assignBit drop_assignBit)

theorem ReduceFeatures_frame_witness:
  "featureFlags (ReduceFeatures (AdaptiveOptions_new 3\<lparr> useInfSharpPatch := True \<rparr>) 2047)
     = [False, False, True, True, False, False, False, False, True, True, True]
   \<and> featureFlags (ReduceFeatures (AdaptiveOptions_new 3) 2047)
     = [False, False, True, True, True, True, True, True, True, True, True]"
proof -
  have flags: "featureFlags 2047 = replicate 11 True"
    by (simp add: featureFlags_def select_defs numeral_eq_Suc)
  show ?thesis
    using flags
      ReduceFeatures_frame [of "AdaptiveOptions_new 3\<lparr> useInfSharpPatch := True \<rparr>" 2047]
      ReduceFeatures_frame [of "AdaptiveOptions_new 3" 2047]
    by (simp add: featureFlags_def AdaptiveOptions_new_def numeral_eq_Suc)
qed

lemma drop_ReduceFeatures: "drop_bit 11 (ReduceFeatures options m) = drop_bit 11 m"
  by (simp add: ReduceFeatures_def Let_def drop_assignBit)

lemma madeMask_invariant:
  "madeMask m \<Longrightarrow> drop_bit 11 m = 0 \<or> bit m 3"
proof (induction rule: madeMask.induct)
  case (fromDefault storage)
  show ?case by (simp add: FeatureMask_default_def Clear_def)
next
  case (fromOptions traits storage options sType)
  show ?case by (simp add: FeatureMask_init_def bit_InitializeFeatures_3)
next
  case (reduced m options)
  then show ?case
    by (simp add: bit_ReduceFeatures_3 drop_ReduceFeatures)
next
  case (cleared m)
  show ?case by (simp add: Clear_def)
next
  case (fvarOff m)
  then show ?case by (simp add: bit_assignBit drop_assignBit)
qed

lemma madeMask_adaptiveFeatureMasks:
  "madeMask (fst (adaptiveFeatureMasks traits storage options t base))"
  "madeMask (snd (adaptiveFeatureMasks traits storage options t base))"
  by (auto simp: adaptiveFeatureMasks_def Let_def intro: madeMask.intros)

text \<open>
  C10: for every mask that the code makes (by the default constructor or the constructor
  from options, then by ReduceFeatures, Clear or the assignment of selectFVarFeatures, on
  storage of any content), IsEmpty holds exactly when the eleven fields are all unset, so
  the test of the empty mask at the start of the classifier answers false exactly when no
  feature is eligible; Clear and the default constructor give a mask that is empty and
  has every field unset; and the two masks that RefineAdaptive computes and hands to the
  classifier are such masks.
\<close>

theorem IsEmpty_iff_no_feature_selected:
  "madeMask m \<Longrightarrow>
     (IsEmpty m \<longleftrightarrow> featureFlags m = replicate 11 False)
     \<and> (featureFlags m = replicate 11 False \<longrightarrow> \<not> doesFaceHaveFeatures level face m)
     \<and> IsEmpty (Clear m') \<and> featureFlags (Clear m') = replicate 11 False
     \<and> IsEmpty (FeatureMask_default m') \<and> featureFlags (FeatureMask_default m') = replicate 11 False
     \<and> madeMask (fst (adaptiveFeatureMasks traits storage options t base))
     \<and> madeMask (snd (adaptiveFeatureMasks traits storage options t base))"
proof -
  assume made: "madeMask m"
  have iff: "IsEmpty m \<longleftrightarrow> featureFlags m = replicate 11 False"
    using madeMask_invariant [OF made] nonempty_of_bit3 [of m] IsEmpty_iff [of m] by blast
  then have short: "featureFlags m = replicate 11 False \<longrightarrow> \<not> doesFaceHaveFeatures level face m"
    by (simp add: doesFaceHaveFeatures_def)
  show ?thesis
    using iff short empty_of_zero madeMask_adaptiveFeatureMasks [of traits storage options t base]
    by (simp add: Clear_def FeatureMask_default_def)
qed

theorem IsEmpty_iff_no_feature_selected_witness:
  "madeMask (FeatureMask_init sdcTraits 2048 (AdaptiveOptions_new 3) SCHEME_CATMARK)
   \<and> \<not> IsEmpty (FeatureMask_init sdcTraits 2048 (AdaptiveOptions_new 3) SCHEME_CATMARK)
   \<and> featureFlags (FeatureMask_init sdcTraits 2048 (AdaptiveOptions_new 3) SCHEME_CATMARK)
       \<noteq> replicate 11 False
   \<and> madeMask (Clear (FeatureMask_init sdcTraits 2048 (AdaptiveOptions_new 3) SCHEME_CATMARK))
   \<and> IsEmpty (Clear (FeatureMask_init sdcTraits 2048 (AdaptiveOptions_new 3) SCHEME_CATMARK))
   \<and> featureFlags
         (Clear (FeatureMask_init sdcTraits 2048 (AdaptiveOptions_new 3) SCHEME_CATMARK))
       = replicate 11 False"
proof -
  let ?m = "FeatureMask_init sdcTraits 2048 (AdaptiveOptions_new 3) SCHEME_CATMARK"
  have made: "madeMask ?m" by (rule madeMask.fromOptions)
  have made': "madeMask (Clear ?m)" by (rule madeMask.cleared [OF made])
  have "bit ?m 3" by (simp add: FeatureMask_init_def bit_InitializeFeatures_3)
  then have "?m \<noteq> 0" by auto
  then have ne: "\<not> IsEmpty ?m" by (simp add: IsEmpty_def)
  have e: "IsEmpty (Clear ?m)" by (simp add: IsEmpty_def Clear_def)
  show ?thesis
    using made made' ne e
      IsEmpty_iff_no_feature_selected [OF made]
      IsEmpty_iff_no_feature_selected [OF made']
    by blast
qed

section \<open>The classifiers\<close>

lemmas rule_defs = RULE_SMOOTH_def RULE_DART_def RULE_CREASE_def RULE_CORNER_def

text \<open>
  C5, as stated, fails on an irregular aggregate tag that has the corner rule besides the
  crease rule: the corner rule is tested first, and the classifier returns
  selectInfSharpIrregularCorner.
\<close>

theorem doesInfSharpFaceHaveFeatures_crease_counterexample:
  "infIrregular irregularCreaseCornerTag
   \<and> rule irregularCreaseCornerTag AND RULE_CREASE \<noteq> 0
   \<and> \<not> boundary irregularCreaseCornerTag
   \<and> doesInfSharpFaceHaveFeatures irregularCreaseCornerTag 256
       \<noteq> selectInfSharpIrregularCrease 256"
  by (simp add: irregularCreaseCornerTag_def VTag_clear_def rule_defs
        doesInfSharpFaceHaveFeatures_def selectInfSharpIrregularCorner_def
        selectInfSharpIrregularCrease_def)

text \<open>
  C5, amended: for every aggregate tag and mask, the inf-sharp classifier returns: for an
  irregular tag with the crease rule and without the corner rule, selectXOrdinaryBoundary
  when the tag is on a boundary and selectInfSharpIrregularCrease otherwise; for an
  irregular tag with the corner rule, selectInfSharpIrregularCorner; for a regular
  boundary tag with the corner rule, false when the corner field is set and
  selectInfSharpRegularCorner otherwise; for a regular boundary tag without the corner
  rule, false.
\<close>

theorem doesInfSharpFaceHaveFeatures_cases:
  "(infIrregular t \<and> rule t AND RULE_CREASE \<noteq> 0 \<and> rule t AND RULE_CORNER = 0 \<longrightarrow>
      doesInfSharpFaceHaveFeatures t m
        = (if boundary t then selectXOrdinaryBoundary m else selectInfSharpIrregularCrease m))
   \<and> (infIrregular t \<and> rule t AND RULE_CORNER \<noteq> 0 \<longrightarrow>
      doesInfSharpFaceHaveFeatures t m = selectInfSharpIrregularCorner m)
   \<and> (\<not> infIrregular t \<and> boundary t \<and> rule t AND RULE_CORNER \<noteq> 0 \<longrightarrow>
      doesInfSharpFaceHaveFeatures t m
        = (if corner t then False else selectInfSharpRegularCorner m))
   \<and> (\<not> infIrregular t \<and> boundary t \<and> rule t AND RULE_CORNER = 0 \<longrightarrow>
      doesInfSharpFaceHaveFeatures t m = False)"
  by (simp add: doesInfSharpFaceHaveFeatures_def)

theorem doesInfSharpFaceHaveFeatures_cases_witness:
  "doesInfSharpFaceHaveFeatures
      (VTag_clear\<lparr> rule := RULE_CREASE OR RULE_SMOOTH, infIrregular := True \<rparr>) 128
   \<and> doesInfSharpFaceHaveFeatures irregularCreaseCornerTag 256
   \<and> doesInfSharpFaceHaveFeatures
        (VTag_clear\<lparr> rule := RULE_CORNER OR RULE_SMOOTH, boundary := True \<rparr>) 32
   \<and> \<not> doesInfSharpFaceHaveFeatures creaseBoundaryTag 2047"
  using
    doesInfSharpFaceHaveFeatures_cases
      [of "VTag_clear\<lparr> rule := RULE_CREASE OR RULE_SMOOTH, infIrregular := True \<rparr>" 128]
    doesInfSharpFaceHaveFeatures_cases [of irregularCreaseCornerTag 256]
    doesInfSharpFaceHaveFeatures_cases
      [of "VTag_clear\<lparr> rule := RULE_CORNER OR RULE_SMOOTH, boundary := True \<rparr>" 32]
    doesInfSharpFaceHaveFeatures_cases [of creaseBoundaryTag 2047]
  by (simp add: VTag_clear_def irregularCreaseCornerTag_def creaseBoundaryTag_def rule_defs
        select_defs)

lemma foldl_VTag_or_bools:
  "nonManifold (foldl VTag_or t ts) = (nonManifold t \<or> (\<exists>x\<in>set ts. nonManifold x))"
  "xordinary (foldl VTag_or t ts) = (xordinary t \<or> (\<exists>x\<in>set ts. xordinary x))"
  "incomplete (foldl VTag_or t ts) = (incomplete t \<or> (\<exists>x\<in>set ts. incomplete x))"
  by (induction ts arbitrary: t; auto simp: VTag_or_def)+

lemma foldl_VTag_or_rule:
  "bit (rule (foldl VTag_or t ts)) n = (bit (rule t) n \<or> (\<exists>x\<in>set ts. bit (rule x) n))"
  by (induction ts arbitrary: t) (auto simp: VTag_or_def bit_or_iff)

lemma BitwiseOr_fields:
  "ts \<noteq> [] \<Longrightarrow> nonManifold (BitwiseOr ts) = (\<exists>x\<in>set ts. nonManifold x)"
  "ts \<noteq> [] \<Longrightarrow> xordinary (BitwiseOr ts) = (\<exists>x\<in>set ts. xordinary x)"
  "ts \<noteq> [] \<Longrightarrow> incomplete (BitwiseOr ts) = (\<exists>x\<in>set ts. incomplete x)"
  "ts \<noteq> [] \<Longrightarrow> bit (rule (BitwiseOr ts)) n = (\<exists>x\<in>set ts. bit (rule x) n)"
  by (cases ts; simp add: foldl_VTag_or_bools foldl_VTag_or_rule)+

lemma no_smooth_bit: "(r :: Rule) AND RULE_SMOOTH = 0 \<longleftrightarrow> \<not> bit r 0"
  by (simp add: RULE_SMOOTH_def and_one_eq bit_0 mod_2_eq_odd)


lemma seamQuad_comp:
  "BitwiseOr (map (\<lambda>v. getVertexCompositeFVarVTag seamQuad v 0) (getFaceVertices seamQuad 0))
     = VTag_clear\<lparr> rule := 5, boundary := True, infSharpEdges := True \<rparr>"
  by (simp add: seamQuad_def Level_new_def smoothTag_def creaseBoundaryTag_def VTag_or_def
        VTag_clear_def rule_defs)

text \<open>
  C6, as stated, fails on a face whose aggregate rule has the smooth bit and another bit:
  the rule is not fully smooth, and the classifier goes on to the inf-sharp classifier,
  which here returns false.
\<close>

theorem doesFaceHaveDistinctFaceVaryingFeatures_counterexample:
  "\<not> doesFaceFVarTopologyMatch seamQuad 0 0
   \<and> rule (BitwiseOr (map (\<lambda>v. getVertexCompositeFVarVTag seamQuad v 0)
                          (getFaceVertices seamQuad 0))) \<noteq> RULE_SMOOTH
   \<and> \<not> doesFaceHaveDistinctFaceVaryingFeatures seamQuad 0 2047 0"
proof -
  have "\<not> doesFaceFVarTopologyMatch seamQuad 0 0"
    by (simp add: seamQuad_def Level_new_def)
  moreover have "\<not> doesFaceHaveDistinctFaceVaryingFeatures seamQuad 0 2047 0"
    unfolding doesFaceHaveDistinctFaceVaryingFeatures_def Let_def seamQuad_comp
    by (simp add: VTag_clear_def rule_defs doesInfSharpFaceHaveFeatures_def)
  ultimately show ?thesis
    by (simp add: seamQuad_comp VTag_clear_def rule_defs)
qed

text \<open>
  C6, amended: for every face tested on the face-varying path, the classifier builds the
  aggregate tag as the bitwise OR of the composite face-varying tags of the vertices of the
  face, and returns true if the aggregate is non-manifold and selectNonManifold is set,
  true if the aggregate is extraordinary and selectXOrdinaryInterior is set, true if the
  aggregate rule has no smooth bit, that is if no corner is smooth, and otherwise the
  result of the inf-sharp classifier on the aggregate.
\<close>

theorem doesFaceHaveDistinctFaceVaryingFeatures_rules:
  "doesFaceHaveDistinctFaceVaryingFeatures level face m channel =
     (let compVTag =
            BitwiseOr (map (\<lambda>v. getVertexCompositeFVarVTag level v channel)
                         (getFaceVertices level face))
      in (nonManifold compVTag \<and> selectNonManifold m)
         \<or> (xordinary compVTag \<and> selectXOrdinaryInterior m)
         \<or> rule compVTag AND RULE_SMOOTH = 0
         \<or> doesInfSharpFaceHaveFeatures compVTag m)
   \<and> (getFaceVertices level face \<noteq> [] \<longrightarrow>
        (let tags = map (\<lambda>v. getVertexCompositeFVarVTag level v channel)
                      (getFaceVertices level face)
         in (nonManifold (BitwiseOr tags) \<longleftrightarrow> (\<exists>t\<in>set tags. nonManifold t))
            \<and> (xordinary (BitwiseOr tags) \<longleftrightarrow> (\<exists>t\<in>set tags. xordinary t))
            \<and> (rule (BitwiseOr tags) AND RULE_SMOOTH = 0
                 \<longleftrightarrow> (\<forall>t\<in>set tags. rule t AND RULE_SMOOTH = 0))))"
proof -
  have first: "doesFaceHaveDistinctFaceVaryingFeatures level face m channel =
     (let compVTag =
            BitwiseOr (map (\<lambda>v. getVertexCompositeFVarVTag level v channel)
                         (getFaceVertices level face))
      in (nonManifold compVTag \<and> selectNonManifold m)
         \<or> (xordinary compVTag \<and> selectXOrdinaryInterior m)
         \<or> rule compVTag AND RULE_SMOOTH = 0
         \<or> doesInfSharpFaceHaveFeatures compVTag m)"
    by (auto simp: doesFaceHaveDistinctFaceVaryingFeatures_def Let_def)
  have second: "ts \<noteq> [] \<Longrightarrow>
      (nonManifold (BitwiseOr ts) \<longleftrightarrow> (\<exists>t\<in>set ts. nonManifold t))
      \<and> (xordinary (BitwiseOr ts) \<longleftrightarrow> (\<exists>t\<in>set ts. xordinary t))
      \<and> (rule (BitwiseOr ts) AND RULE_SMOOTH = 0
           \<longleftrightarrow> (\<forall>t\<in>set ts. rule t AND RULE_SMOOTH = 0))" for ts
    by (simp add: BitwiseOr_fields no_smooth_bit)
  show ?thesis
    using first second [of "map (\<lambda>v. getVertexCompositeFVarVTag level v channel)
                      (getFaceVertices level face)"]
    by (simp add: Let_def)
qed

theorem doesFaceHaveDistinctFaceVaryingFeatures_rules_witness:
  "getFaceVertices seamQuad 0 \<noteq> []
   \<and> doesFaceHaveDistinctFaceVaryingFeatures seamQuad 0 2047 0 = False"
proof -
  have h: "getFaceVertices seamQuad 0 \<noteq> []"
    by (simp add: seamQuad_def Level_new_def)
  show ?thesis
    using h doesFaceHaveDistinctFaceVaryingFeatures_rules [of seamQuad 0 2047 0]
    unfolding Let_def seamQuad_comp
    by (simp add: VTag_clear_def rule_defs doesInfSharpFaceHaveFeatures_def)
qed

section \<open>Preconditions of the refinement calls\<close>

text \<open>
  C8: on a refiner with a base level, if the base level has no vertices or a refinement is
  already there, RefineUniform reports a runtime error and returns the refiner as it was;
  RefineAdaptive does the same, also when the scheme is not Catmark. When the
  preconditions hold, no error is reported.
\<close>

theorem Refine_precondition_failure:
  "levels r \<noteq> [] \<Longrightarrow>
     (getNumVertices (levels r ! 0) = 0 \<or> refinements r \<noteq> [] \<longrightarrow>
        (\<exists>msg. RefineUniform traits refine uopts r = (Some (FAR_RUNTIME_ERROR, msg), r)))
     \<and> (getNumVertices (levels r ! 0) = 0 \<or> refinements r \<noteq> []
          \<or> subdivType r \<noteq> SCHEME_CATMARK \<longrightarrow>
        (\<exists>msg. RefineAdaptive traits refine storage aopts r
                 = (Some (FAR_RUNTIME_ERROR, msg), r)))
     \<and> (getNumVertices (levels r ! 0) \<noteq> 0 \<and> refinements r = [] \<longrightarrow>
          fst (RefineUniform traits refine uopts r) = None)
     \<and> (getNumVertices (levels r ! 0) \<noteq> 0 \<and> refinements r = []
          \<and> subdivType r = SCHEME_CATMARK \<longrightarrow>
          fst (RefineAdaptive traits refine storage aopts r) = None)"
  by (simp add: RefineUniform_def RefineAdaptive_def Let_def)

theorem Refine_precondition_failure_witness:
  "levels (TopologyRefiner_new SCHEME_LOOP 0) \<noteq> []
   \<and> snd (RefineUniform sdcTraits (\<lambda>rf ro. Level_new) (UniformOptions_new 1)
            (TopologyRefiner_new SCHEME_LOOP 0)) = TopologyRefiner_new SCHEME_LOOP 0
   \<and> fst (RefineUniform sdcTraits (\<lambda>rf ro. Level_new) (UniformOptions_new 1)
            (TopologyRefiner_new SCHEME_LOOP 0)) \<noteq> None
   \<and> snd (RefineAdaptive sdcTraits (\<lambda>rf ro. Level_new) 0 (AdaptiveOptions_new 1)
            (populateBaseLevel seamQuad (TopologyRefiner_new SCHEME_LOOP 0)))
       = populateBaseLevel seamQuad (TopologyRefiner_new SCHEME_LOOP 0)
   \<and> fst (RefineUniform sdcTraits (\<lambda>rf ro. Level_new) (UniformOptions_new 1)
            (populateBaseLevel seamQuad (TopologyRefiner_new SCHEME_LOOP 0))) = None"
proof -
  have new: "levels (TopologyRefiner_new SCHEME_LOOP 0) = [Level_new]"
    "refinements (TopologyRefiner_new SCHEME_LOOP 0) = []"
    "subdivType (TopologyRefiner_new SCHEME_LOOP 0) = SCHEME_LOOP"
    by (simp_all add: TopologyRefiner_new_def assembleFarLevels_def Let_def)
  have pop: "levels (populateBaseLevel seamQuad (TopologyRefiner_new SCHEME_LOOP 0)) = [seamQuad]"
    "refinements (populateBaseLevel seamQuad (TopologyRefiner_new SCHEME_LOOP 0)) = []"
    "subdivType (populateBaseLevel seamQuad (TopologyRefiner_new SCHEME_LOOP 0)) = SCHEME_LOOP"
    by (simp_all add: populateBaseLevel_def initializeInventory_def Let_def new)
  have verts: "getNumVertices Level_new = 0" "getNumVertices seamQuad = 4"
    by (simp_all add: Level_new_def seamQuad_def)
  show ?thesis
    using
      Refine_precondition_failure
        [of "TopologyRefiner_new SCHEME_LOOP 0" sdcTraits "\<lambda>rf ro. Level_new"
           "UniformOptions_new 1" 0 "AdaptiveOptions_new 1"]
      Refine_precondition_failure
        [of "populateBaseLevel seamQuad (TopologyRefiner_new SCHEME_LOOP 0)" sdcTraits
           "\<lambda>rf ro. Level_new" "UniformOptions_new 1" 0 "AdaptiveOptions_new 1"]
    by (auto simp: new pop verts)
qed

section \<open>The stacks of levels and refinements\<close>

lemma assembleFarLevels_fields [simp]:
  "levels (assembleFarLevels r) = levels r"
  "refinements (assembleFarLevels r) = refinements r"
  "maxLevel (assembleFarLevels r) = maxLevel r"
  "subdivType (assembleFarLevels r) = subdivType r"
  by (simp_all add: assembleFarLevels_def Let_def)

lemma append_fields [simp]:
  "levels (appendRefinement (appendLevel r childLevel) refinement) = levels r @ [childLevel]"
  "refinements (appendRefinement (appendLevel r childLevel) refinement)
     = refinements r @ [refinement]"
  "subdivType (appendRefinement (appendLevel r childLevel) refinement) = subdivType r"
  "subdivOptions (appendRefinement (appendLevel r childLevel) refinement) = subdivOptions r"
  by (simp_all add: appendRefinement_def appendLevel_def updateInventory_def)

declare RefineUniform_loop.simps [simp del]
declare RefineAdaptive_loop.simps [simp del]

lemma RefineUniform_loop_lengths:
  "length (levels (RefineUniform_loop refine splitType options i r))
     = length (levels r) + (Suc (refinementLevel options) - i)
   \<and> length (refinements (RefineUniform_loop refine splitType options i r))
     = length (refinements r) + (Suc (refinementLevel options) - i)"
proof (induction refine splitType options i r rule: RefineUniform_loop.induct)
  case (1 refine splitType options i r)
  show ?case
  proof (cases "i \<le> refinementLevel options")
    case True
    then show ?thesis
      using 1
      by (subst (1 2) RefineUniform_loop.simps) (simp add: Let_def Suc_diff_le)
  next
    case False
    then show ?thesis
      by (subst (1 2) RefineUniform_loop.simps) simp
  qed
qed

lemma RefineUniform_loop_refinedWith:
  "map refinedWith (refinements (RefineUniform_loop refine splitType options i r))
     = map refinedWith (refinements r)
       @ map (\<lambda>j. Some \<lparr> sparse = False,
                          faceVertsFirst = orderVerticesFromFacesFirstU options,
                          minimalTopology =
                            (\<not> fullTopologyInLastLevel options \<and> j = refinementLevel options) \<rparr>)
           [i..<Suc (refinementLevel options)]"
proof (induction refine splitType options i r rule: RefineUniform_loop.induct)
  case (1 refine splitType options i r)
  show ?case
  proof (cases "i \<le> refinementLevel options")
    case True
    then have "[i..<Suc (refinementLevel options)] = i # [Suc i..<Suc (refinementLevel options)]"
      by (simp add: upt_conv_Cons)
    then show ?thesis
      using 1 True
      by (subst RefineUniform_loop.simps)
         (simp add: Let_def QuadRefinement_def TriRefinement_def)
  next
    case False
    then show ?thesis
      by (subst RefineUniform_loop.simps) simp
  qed
qed

lemma RefineAdaptive_loop_lengths:
  "length (levels (RefineAdaptive_loop traits refine splitType ro n sh mMore mLess i r))
       + length (refinements r)
     = length (refinements (RefineAdaptive_loop traits refine splitType ro n sh mMore mLess i r))
       + length (levels r)
   \<and> length (refinements (RefineAdaptive_loop traits refine splitType ro n sh mMore mLess i r))
     \<le> length (refinements r) + (Suc n - i)"
proof (induction traits refine splitType ro n sh mMore mLess i r rule: RefineAdaptive_loop.induct)
  case (1 traits refine splitType ro n sh mMore mLess i r)
  let ?sel = "adaptiveSelector traits splitType sh mMore mLess i r"
  let ?rf = "(getRefinement ?sel)\<lparr> selection := selectedFaces ?sel, refinedWith := Some ro \<rparr>"
  let ?r1 = "appendRefinement (appendLevel r (refine ?rf ro)) ?rf"
  show ?case
  proof (cases "i \<le> n \<and> \<not> isSelectionEmpty ?sel")
    case True
    have step: "RefineAdaptive_loop traits refine splitType ro n sh mMore mLess i r
        = RefineAdaptive_loop traits refine splitType ro n sh mMore mLess (i + 1) ?r1"
      using True by (subst RefineAdaptive_loop.simps) (simp add: Let_def)
    define r2 where
      "r2 = RefineAdaptive_loop traits refine splitType ro n sh mMore mLess (i + 1) ?r1"
    have ih: "length (levels r2) + length (refinements ?r1)
                = length (refinements r2) + length (levels ?r1)
              \<and> length (refinements r2) \<le> length (refinements ?r1) + (Suc n - (i + 1))"
      unfolding r2_def
      using True by (intro "1.IH" [OF _ refl _ refl refl]) simp_all
    have l1: "length (refinements ?r1) = Suc (length (refinements r))"
      "length (levels ?r1) = Suc (length (levels r))"
      by simp_all
    have "i \<le> n" using True by simp
    then show ?thesis
      unfolding step r2_def [symmetric] using ih unfolding l1 by arith
  next
    case False
    then have "RefineAdaptive_loop traits refine splitType ro n sh mMore mLess i r = r"
      by (subst RefineAdaptive_loop.simps) (auto simp: Let_def)
    then show ?thesis by simp
  qed
qed

lemma RefineUniform_success:
  "getNumVertices (levels r ! 0) \<noteq> 0 \<Longrightarrow> refinements r = [] \<Longrightarrow>
     RefineUniform traits refine options r =
       (None, assembleFarLevels
          (RefineUniform_loop refine (GetTopologicalSplitType traits (subdivType r)) options 1
             (r\<lparr> uniformOptions := options, isUniform := True,
                  maxLevel := refinementLevel options \<rparr>)))"
  by (simp add: RefineUniform_def Let_def)

lemma RefineUniform_failure:
  "getNumVertices (levels r ! 0) = 0 \<or> refinements r \<noteq> [] \<Longrightarrow>
     snd (RefineUniform traits refine options r) = r"
  by (auto simp: RefineUniform_def Let_def)

lemma RefineAdaptive_failure:
  "getNumVertices (levels r ! 0) = 0 \<or> refinements r \<noteq> [] \<or> subdivType r \<noteq> SCHEME_CATMARK \<Longrightarrow>
     snd (RefineAdaptive traits refine storage options r) = r"
  by (auto simp: RefineAdaptive_def Let_def)

lemma RefineAdaptive_success:
  "getNumVertices (levels r ! 0) \<noteq> 0 \<Longrightarrow> refinements r = [] \<Longrightarrow>
   subdivType r = SCHEME_CATMARK \<Longrightarrow>
     RefineAdaptive traits refine storage options r =
       (let r1 = r\<lparr> isUniform := False, adaptiveOptions := options \<rparr>;
            masks = adaptiveFeatureMasks traits storage options SCHEME_CATMARK (levels r ! 0);
            r2 = RefineAdaptive_loop traits refine
                   (GetTopologicalSplitType traits SCHEME_CATMARK)
                   \<lparr> sparse = True, faceVertsFirst = orderVerticesFromFacesFirst options,
                     minimalTopology = False \<rparr>
                   (isolationLevel options)
                   (min (secondaryLevel options) (isolationLevel options))
                   (fst masks) (snd masks) 1 r1
        in (None, assembleFarLevels (r2\<lparr> maxLevel := length (refinements r2) \<rparr>)))"
  by (simp add: RefineAdaptive_def Let_def)

lemma TopologyRefiner_new_fields:
  "levels (TopologyRefiner_new schemeType schemeOpts) = [Level_new]"
  "refinements (TopologyRefiner_new schemeType schemeOpts) = []"
  "subdivType (TopologyRefiner_new schemeType schemeOpts) = schemeType"
  by (simp_all add: TopologyRefiner_new_def)

lemma populateBaseLevel_fields:
  "levels (populateBaseLevel baseLevel r) = (levels r)[0 := baseLevel]"
  "refinements (populateBaseLevel baseLevel r) = refinements r"
  "subdivType (populateBaseLevel baseLevel r) = subdivType r"
  by (simp_all add: populateBaseLevel_def initializeInventory_def Let_def)

lemma Unrefine_fields:
  "levels r \<noteq> [] \<Longrightarrow> levels (Unrefine r) = [levels r ! 0]"
  "refinements (Unrefine r) = []"
  by (simp_all add: Unrefine_def initializeInventory_def Let_def take_Suc_conv_app_nth
        neq_Nil_conv hd_conv_nth take_Suc)

lemma RefineUniform_lengths:
  "length (levels r) = Suc (length (refinements r)) \<Longrightarrow>
   length (levels (snd (RefineUniform traits refine options r)))
     = Suc (length (refinements (snd (RefineUniform traits refine options r))))"
proof (cases "getNumVertices (levels r ! 0) = 0 \<or> refinements r \<noteq> []")
  case True
  assume "length (levels r) = Suc (length (refinements r))"
  then show ?thesis using RefineUniform_failure [OF True] by simp
next
  case False
  assume "length (levels r) = Suc (length (refinements r))"
  then show ?thesis using False
    by (simp add: RefineUniform_success RefineUniform_loop_lengths)
qed

lemma RefineAdaptive_lengths:
  "length (levels r) = Suc (length (refinements r)) \<Longrightarrow>
   length (levels (snd (RefineAdaptive traits refine storage options r)))
     = Suc (length (refinements (snd (RefineAdaptive traits refine storage options r))))"
proof (cases "getNumVertices (levels r ! 0) = 0 \<or> refinements r \<noteq> []
               \<or> subdivType r \<noteq> SCHEME_CATMARK")
  case True
  assume "length (levels r) = Suc (length (refinements r))"
  then show ?thesis using RefineAdaptive_failure [OF True] by simp
next
  case False
  assume inv: "length (levels r) = Suc (length (refinements r))"
  let ?r1 = "r\<lparr> isUniform := False, adaptiveOptions := options \<rparr>"
  have "length (levels ?r1) = Suc (length (refinements ?r1))" using inv by simp
  then have "length (levels (RefineAdaptive_loop traits refine sp ro n sh mMore mLess i ?r1))
     = Suc (length (refinements (RefineAdaptive_loop traits refine sp ro n sh mMore mLess i ?r1)))"
    for sp ro n sh mMore mLess i
    using RefineAdaptive_loop_lengths [of traits refine sp ro n sh mMore mLess i ?r1] by arith
  then show ?thesis using False
    by (simp add: RefineAdaptive_success Let_def)
qed

lemma reachable_invariant:
  "reachable traits r \<Longrightarrow> length (levels r) = Suc (length (refinements r))"
proof (induction rule: reachable.induct)
  case (constructed schemeType schemeOpts)
  show ?case by (simp add: TopologyRefiner_new_fields)
next
  case (populated r baseLevel)
  then show ?case by (simp add: populateBaseLevel_fields)
next
  case (refinedUniform r refine uopts)
  then show ?case by (simp add: RefineUniform_lengths)
next
  case (refinedAdaptive r refine storage aopts)
  then show ?case by (simp add: RefineAdaptive_lengths)
next
  case (unrefined r)
  then have "levels r \<noteq> []" by auto
  then show ?case by (simp add: Unrefine_fields)
qed

lemma plainQuad_populated:
  "levels (populateBaseLevel plainQuad (TopologyRefiner_new SCHEME_CATMARK 0)) = [plainQuad]"
  "refinements (populateBaseLevel plainQuad (TopologyRefiner_new SCHEME_CATMARK 0)) = []"
  "subdivType (populateBaseLevel plainQuad (TopologyRefiner_new SCHEME_CATMARK 0))
     = SCHEME_CATMARK"
  "getNumVertices plainQuad = 4"
  by (simp_all add: populateBaseLevel_fields TopologyRefiner_new_fields plainQuad_def
        Level_new_def)

lemma upt_1_3: "[Suc 0..<3] = [Suc 0, 2]"
  by (simp add: upt_rec numeral_eq_Suc)

text \<open>
  C1: in every state that a refiner reaches (after construction, after the base level is
  populated, after any RefineUniform or RefineAdaptive call, failed or not, and after
  Unrefine) the number of levels is the number of refinements plus one, and at least one.
  The constructor creates one level and no refinement; a pass appends one level and one
  refinement together; Unrefine keeps the first level only and no refinement; a
  RefineUniform call that reports no error leaves as many refinements as the requested
  depth, and one level more.
\<close>

theorem levels_refinements_invariant:
  "reachable traits r \<Longrightarrow>
     length (levels r) = length (refinements r) + 1 \<and> 1 \<le> length (levels r)
     \<and> length (levels (TopologyRefiner_new schemeType schemeOpts)) = 1
     \<and> refinements (TopologyRefiner_new schemeType schemeOpts) = []
     \<and> levels (appendRefinement (appendLevel r childLevel) refinement)
         = levels r @ [childLevel]
     \<and> refinements (appendRefinement (appendLevel r childLevel) refinement)
         = refinements r @ [refinement]
     \<and> levels (Unrefine r) = [levels r ! 0] \<and> refinements (Unrefine r) = []
     \<and> (fst (RefineUniform traits refine uopts r) = None \<longrightarrow>
          length (refinements (snd (RefineUniform traits refine uopts r)))
            = refinementLevel uopts
          \<and> length (levels (snd (RefineUniform traits refine uopts r)))
            = refinementLevel uopts + 1)"
proof -
  assume reach: "reachable traits r"
  have inv: "length (levels r) = Suc (length (refinements r))"
    using reach by (rule reachable_invariant)
  then have ne: "levels r \<noteq> []" by auto
  have uni: "length (refinements (snd (RefineUniform traits refine uopts r)))
            = refinementLevel uopts
          \<and> length (levels (snd (RefineUniform traits refine uopts r)))
            = refinementLevel uopts + 1"
    if ok: "fst (RefineUniform traits refine uopts r) = None"
  proof -
    have pre: "getNumVertices (levels r ! 0) \<noteq> 0" "refinements r = []"
      using ok by (auto simp: RefineUniform_def Let_def split: if_splits)
    then show ?thesis
      using inv by (simp add: RefineUniform_success RefineUniform_loop_lengths)
  qed
  show ?thesis
    using inv ne uni
    by (simp add: TopologyRefiner_new_fields Unrefine_fields)
qed

theorem levels_refinements_invariant_witness:
  "reachable sdcTraits (populateBaseLevel plainQuad (TopologyRefiner_new SCHEME_CATMARK 0))
   \<and> length (refinements (snd (RefineUniform sdcTraits splitKeepingFaces (UniformOptions_new 2)
        (populateBaseLevel plainQuad (TopologyRefiner_new SCHEME_CATMARK 0))))) = 2
   \<and> length (levels (snd (RefineUniform sdcTraits splitKeepingFaces (UniformOptions_new 2)
        (populateBaseLevel plainQuad (TopologyRefiner_new SCHEME_CATMARK 0))))) = 3"
proof -
  have reach: "reachable sdcTraits
      (populateBaseLevel plainQuad (TopologyRefiner_new SCHEME_CATMARK 0))"
    by (rule reachable.populated [OF reachable.constructed])
       (simp add: TopologyRefiner_new_fields)
  have ok: "fst (RefineUniform sdcTraits splitKeepingFaces (UniformOptions_new 2)
        (populateBaseLevel plainQuad (TopologyRefiner_new SCHEME_CATMARK 0))) = None"
    by (simp add: RefineUniform_success plainQuad_populated)
  show ?thesis
    using reach ok
      levels_refinements_invariant [OF reach, of SCHEME_CATMARK 0 plainQuad
        "QuadRefinement plainQuad 0" splitKeepingFaces "UniformOptions_new 2"]
    by (simp add: UniformOptions_new_def)
qed

section \<open>Uniform refinement: the topology kept in each level\<close>

text \<open>
  C9, as stated, fails for the intermediate levels: with fullTopologyInLastLevel unset and
  depth 2 requested, the pass that produces depth 1 runs with minimalTopology false, and
  only the pass that produces depth 2 runs with minimalTopology true.
\<close>

theorem RefineUniform_intermediate_counterexample:
  "map refinedWith (refinements (snd (RefineUniform sdcTraits splitKeepingFaces
       \<lparr> refinementLevel = 2, orderVerticesFromFacesFirstU = False,
         fullTopologyInLastLevel = False \<rparr>
       (populateBaseLevel plainQuad (TopologyRefiner_new SCHEME_CATMARK 0)))))
     = [Some \<lparr> sparse = False, faceVertsFirst = False, minimalTopology = False \<rparr>,
        Some \<lparr> sparse = False, faceVertsFirst = False, minimalTopology = True \<rparr>]"
  by (simp add: RefineUniform_success RefineUniform_loop_refinedWith plainQuad_populated
        upt_1_3)

text \<open>
  C9, amended: in every RefineUniform run that passes the preconditions, the pass that
  produces depth i runs with minimalTopology set exactly when fullTopologyInLastLevel is
  unset and i is the requested depth: the last level keeps full topology only if the
  option is set, and every intermediate level keeps full topology whatever the option.
\<close>

theorem RefineUniform_minimalTopology:
  "levels r \<noteq> [] \<Longrightarrow> getNumVertices (levels r ! 0) \<noteq> 0 \<Longrightarrow> refinements r = [] \<Longrightarrow>
   map refinedWith (refinements (snd (RefineUniform traits refine options r)))
     = map (\<lambda>i. Some \<lparr> sparse = False,
                       faceVertsFirst = orderVerticesFromFacesFirstU options,
                       minimalTopology =
                         (\<not> fullTopologyInLastLevel options \<and> i = refinementLevel options) \<rparr>)
         [1..<Suc (refinementLevel options)]"
  by (simp add: RefineUniform_success RefineUniform_loop_refinedWith)

theorem RefineUniform_minimalTopology_witness:
  "levels (populateBaseLevel plainQuad (TopologyRefiner_new SCHEME_CATMARK 0)) \<noteq> []
   \<and> map refinedWith (refinements (snd (RefineUniform sdcTraits splitKeepingFaces
       \<lparr> refinementLevel = 2, orderVerticesFromFacesFirstU = False,
         fullTopologyInLastLevel = True \<rparr>
       (populateBaseLevel plainQuad (TopologyRefiner_new SCHEME_CATMARK 0)))))
     = [Some \<lparr> sparse = False, faceVertsFirst = False, minimalTopology = False \<rparr>,
        Some \<lparr> sparse = False, faceVertsFirst = False, minimalTopology = False \<rparr>]"
proof -
  have h: "levels (populateBaseLevel plainQuad (TopologyRefiner_new SCHEME_CATMARK 0)) \<noteq> []"
    "getNumVertices
       (levels (populateBaseLevel plainQuad (TopologyRefiner_new SCHEME_CATMARK 0)) ! 0) \<noteq> 0"
    "refinements (populateBaseLevel plainQuad (TopologyRefiner_new SCHEME_CATMARK 0)) = []"
    by (simp_all add: plainQuad_populated)
  show ?thesis
    using h(1) RefineUniform_minimalTopology [OF h, of sdcTraits splitKeepingFaces
      "\<lparr> refinementLevel = 2, orderVerticesFromFacesFirstU = False,
         fullTopologyInLastLevel = True \<rparr>"]
    by (simp add: upt_1_3)
qed



section \<open>Selection of the faces of a level\<close>

lemma selectFace_fields [simp]:
  "selectedFaces (selectFace selector face) = insert face (selectedFaces selector)"
  "getRefinement (selectFace selector face) = getRefinement selector"
  by (simp_all add: selectFace_def)

lemma fold_selectFace:
  "selectedFaces (fold (\<lambda>f s. selectFace s f) fs selector) = selectedFaces selector \<union> set fs"
  by (induction fs arbitrary: selector) auto

lemma fold_ring:
  "selectedFaces
     (fold (\<lambda>v sel. fold (\<lambda>f s. selectFace s f) (getVertexFaces level v) sel) vs selector)
   = selectedFaces selector \<union> (\<Union>v\<in>set vs. set (getVertexFaces level v))"
  by (induction vs arbitrary: selector) (auto simp: fold_selectFace)

lemma inspectFace_selected:
  "selectedFaces
     (inspectFace level m irr nfv rfs nb face selector)
   = selectedFaces selector \<union>
     (if isFaceHole level face then {}
      else if irr \<and> length (getFaceVertices level face) \<noteq> rfs then
        (if nb = 0 then {face}
         else (\<Union>v\<in>set (getFaceVertices level face). set (getVertexFaces level v)))
      else if doesFaceHaveFeatures level face m
              \<or> (selectFVarFeatures m \<and> testFVarChannels level face m [0..<nfv])
      then {face} else {})"
  by (auto simp: inspectFace_def Let_def fold_ring)

lemma fold_inspectFace:
  "selectedFaces (fold (inspectFace level m irr nfv rfs nb) fs selector)
   = selectedFaces selector \<union>
     (\<Union>face\<in>set fs.
        if isFaceHole level face then {}
        else if irr \<and> length (getFaceVertices level face) \<noteq> rfs then
          (if nb = 0 then {face}
           else (\<Union>v\<in>set (getFaceVertices level face). set (getVertexFaces level v)))
        else if doesFaceHaveFeatures level face m
                \<or> (selectFVarFeatures m \<and> testFVarChannels level face m [0..<nfv])
        then {face} else {})"
proof (induction fs arbitrary: selector)
  case Nil
  show ?case by simp
next
  case (Cons f fs)
  show ?case
    unfolding fold_simps list.set UN_insert Cons.IH inspectFace_selected
    by (simp only: Un_assoc)
qed

lemma testFVarChannels_match:
  "\<forall>c\<in>set cs. doesFaceFVarTopologyMatch level face c \<Longrightarrow>
     \<not> testFVarChannels level face m cs"
  by (induction cs) (simp_all add: Let_def)

lemma fold_getRefinement:
  "getRefinement (fold (inspectFace level m irr nfv rfs nb) fs selector) = getRefinement selector"
proof (induction fs arbitrary: selector)
  case Nil
  show ?case by simp
next
  case (Cons f fs)
  have "getRefinement (fold (\<lambda>f s. selectFace s f) xs s) = getRefinement s" for xs s
    by (induction xs arbitrary: s) simp_all
  then have "getRefinement
      (fold (\<lambda>v sel. fold (\<lambda>f s. selectFace s f) (getVertexFaces level v) sel) vs s)
      = getRefinement s" for vs s
    by (induction vs arbitrary: s) simp_all
  then have "getRefinement (inspectFace level m irr nfv rfs nb f selector)
      = getRefinement selector"
    by (simp add: inspectFace_def Let_def)
  with Cons.IH show ?case by simp
qed

lemma selectFeatureAdaptiveComponents_selected:
  "selectedFaces (selectFeatureAdaptiveComponents traits subdivT selector m)
   = selectedFaces selector \<union>
     (if IsEmpty m \<and> getDepth (parent (getRefinement selector)) \<noteq> 0 then {}
      else
       (\<Union>face\<in>{..<getNumFaces (parent (getRefinement selector))}.
        if isFaceHole (parent (getRefinement selector)) face then {}
        else if getDepth (parent (getRefinement selector)) = 0
                \<and> length (getFaceVertices (parent (getRefinement selector)) face)
                    \<noteq> getRegularFaceSize (getRefinement selector) then
          (if GetLocalNeighborhoodSize traits subdivT = 0 then {face}
           else (\<Union>v\<in>set (getFaceVertices (parent (getRefinement selector)) face).
                   set (getVertexFaces (parent (getRefinement selector)) v)))
        else if doesFaceHaveFeatures (parent (getRefinement selector)) face m
                \<or> (selectFVarFeatures m
                    \<and> testFVarChannels (parent (getRefinement selector)) face m
                         [0..<getNumFVarChannels (parent (getRefinement selector))])
        then {face} else {}))"
  unfolding selectFeatureAdaptiveComponents_def Let_def
  by (cases "selectFVarFeatures m") (simp_all add: fold_inspectFace atLeast0LessThan)

lemma BitwiseOr_all_smooth:
  assumes "ts \<noteq> []" "\<forall>t\<in>set ts. rule t = RULE_SMOOTH"
  shows "rule (BitwiseOr ts) = RULE_SMOOTH"
proof (rule bit_eqI)
  fix n
  obtain t where "t \<in> set ts" using assms(1) by (cases ts) auto
  then show "bit (rule (BitwiseOr ts)) n = bit RULE_SMOOTH n"
    using assms by (auto simp: BitwiseOr_fields)
qed

lemma smooth_face_no_features:
  assumes "getFaceVertices level face \<noteq> []"
    and "\<forall>v\<in>set (getFaceVertices level face).
           rule (getVertexTag level v) = RULE_SMOOTH
           \<and> \<not> xordinary (getVertexTag level v)
           \<and> \<not> nonManifold (getVertexTag level v)"
  shows "\<not> doesFaceHaveFeatures level face m"
proof -
  let ?ts = "getFaceVTags level face"
  have ne: "?ts \<noteq> []" using assms(1) by (simp add: getFaceVTags_def)
  have "rule (BitwiseOr ?ts) = RULE_SMOOTH"
    using ne assms(2) by (intro BitwiseOr_all_smooth) (auto simp: getFaceVTags_def)
  moreover have "\<not> xordinary (BitwiseOr ?ts)" "\<not> nonManifold (BitwiseOr ?ts)"
    using ne assms(2) by (auto simp: BitwiseOr_fields getFaceVTags_def)
  ultimately show ?thesis
    by (simp add: doesFaceHaveFeatures_def Let_def)
qed

lemma incomplete_face_no_features:
  "incomplete (BitwiseOr (getFaceVTags level face)) \<Longrightarrow> \<not> doesFaceHaveFeatures level face m"
  by (simp add: doesFaceHaveFeatures_def Let_def)

lemma getRegularFaceSize_pos: "getRegularFaceSize refinement \<noteq> 0"
  by (simp add: getRegularFaceSize_def split: RefinementKind.split)

lemma pentagonMesh_fields:
  "getDepth pentagonMesh = 0"
  "getNumFaces pentagonMesh = 3"
  "isFaceHole pentagonMesh f = False"
  "getNumFVarChannels pentagonMesh = 0"
  "getVertexTag pentagonMesh v = smoothTag"
  "getFaceVertices pentagonMesh f =
     (if f = 0 then [0, 1, 2, 3, 4] else if f = 1 then [0, 1, 5, 6]
      else if f = 2 then [5, 6, 7, 8] else [])"
  "getVertexFaces pentagonMesh v =
     (if v < 2 then [0, 1] else if v < 5 then [0] else if v < 7 then [1, 2]
      else if v < 9 then [2] else [])"
  by (simp_all add: pentagonMesh_def Level_new_def)

lemma smoothTag_fields:
  "rule smoothTag = RULE_SMOOTH" "\<not> xordinary smoothTag" "\<not> nonManifold smoothTag"
  "\<not> incomplete smoothTag"
  by (simp_all add: smoothTag_def VTag_clear_def)

lemma quad_selector_fields:
  "parent (getRefinement (SparseSelector_new (QuadRefinement level opts))) = level"
  "getRegularFaceSize (getRefinement (SparseSelector_new (QuadRefinement level opts))) = 4"
  "selectedFaces (SparseSelector_new (QuadRefinement level opts)) = {}"
  by (simp_all add: SparseSelector_new_def QuadRefinement_def getRegularFaceSize_def)

lemma catmark_neighborhood: "GetLocalNeighborhoodSize sdcTraits SCHEME_CATMARK = 1"
  by (simp add: sdcTraits_def)

lemma incompleteSeamQuad_fields:
  "getDepth incompleteSeamQuad = 1"
  "getNumFaces incompleteSeamQuad = 1"
  "isFaceHole incompleteSeamQuad f = False"
  "getNumFVarChannels incompleteSeamQuad = 1"
  "doesFaceFVarTopologyMatch incompleteSeamQuad f c = False"
  "getFaceVertices incompleteSeamQuad 0 = [0, 1, 2, 3]"
  "getVertexTag incompleteSeamQuad v = smoothTag\<lparr> incomplete := True \<rparr>"
  "getVertexCompositeFVarVTag incompleteSeamQuad v c = creaseBoundaryTag\<lparr> incomplete := True \<rparr>"
  by (simp_all add: incompleteSeamQuad_def seamQuad_def Level_new_def)

lemma mask_2047:
  "\<not> IsEmpty 2047" "selectFVarFeatures 2047" "selectNonManifold 2047"
  "selectXOrdinaryInterior 2047"
  by (simp_all add: IsEmpty_def select_defs)

lemma plainQuad_fields:
  "getDepth plainQuad = 0"
  "getNumFaces plainQuad = 1"
  "isFaceHole plainQuad f = False"
  "getNumFVarChannels plainQuad = 0"
  "getFaceVertices plainQuad 0 = [0, 1, 2, 3]"
  "getVertexTag plainQuad v = smoothTag"
  by (simp_all add: plainQuad_def Level_new_def)

lemma plainQuad_selection_empty:
  "selectedFaces (selectFeatureAdaptiveComponents sdcTraits SCHEME_CATMARK
        (SparseSelector_new (QuadRefinement plainQuad opts)) m) = {}"
proof -
  have "\<not> doesFaceHaveFeatures plainQuad 0 m"
    by (rule smooth_face_no_features) (simp_all add: plainQuad_fields smoothTag_fields)
  moreover have "{..<Suc 0} = {0::nat}" by auto
  ultimately show ?thesis
    by (simp add: selectFeatureAdaptiveComponents_selected quad_selector_fields
          plainQuad_fields)
qed

lemma pentagonMesh_selection_nonempty:
  "0 \<in> selectedFaces (selectFeatureAdaptiveComponents sdcTraits SCHEME_CATMARK
        (SparseSelector_new (QuadRefinement pentagonMesh opts)) m)"
proof -
  have "(0::nat) \<in> {..<3}" by simp
  then show ?thesis
    unfolding selectFeatureAdaptiveComponents_selected quad_selector_fields
    by (simp add: pentagonMesh_fields catmark_neighborhood)
qed

lemma pentagonMesh_populated:
  "levels (populateBaseLevel pentagonMesh (TopologyRefiner_new SCHEME_CATMARK 0)) = [pentagonMesh]"
  "refinements (populateBaseLevel pentagonMesh (TopologyRefiner_new SCHEME_CATMARK 0)) = []"
  "subdivType (populateBaseLevel pentagonMesh (TopologyRefiner_new SCHEME_CATMARK 0))
     = SCHEME_CATMARK"
  "getNumVertices pentagonMesh = 9"
  by (simp_all add: populateBaseLevel_fields TopologyRefiner_new_fields pentagonMesh_def
        Level_new_def)

lemma catmark_split: "GetTopologicalSplitType sdcTraits SCHEME_CATMARK = SPLIT_TO_QUADS"
  by (simp add: sdcTraits_def)

lemma AdaptiveOptions_new_fields:
  "isolationLevel (AdaptiveOptions_new l) = l"
  "secondaryLevel (AdaptiveOptions_new l) = 15"
  "orderVerticesFromFacesFirst (AdaptiveOptions_new l) = False"
  by (simp_all add: AdaptiveOptions_new_def)

text \<open>
  C7: at depth 0, for every face that is not a hole and whose number of vertices differs
  from the regular face size: when the neighborhood size of the scheme is not zero, every
  face incident to a vertex of that face is selected, and the face itself is among them
  when it has a vertex and its vertices list it among their faces; when the neighborhood
  size is zero, the face is selected. The step of the loop for such a face adds these
  faces and no other, whatever the mask: no feature test is run on it. With a fresh
  selector, a neighborhood size that is not zero, and every other face that is not a hole
  a regular face (regular size, corners smooth, not extraordinary and manifold,
  face-varying topology matching the mesh), the selection is exactly the faces incident to
  the vertices of the irregular face, which, in a level whose vertex-face lists agree
  with its face-vertex lists, are the faces sharing a vertex with it.
\<close>

theorem irregular_faces_at_depth_0:
  fixes selector :: SparseSelector
  defines "level \<equiv> parent (getRefinement selector)"
    and "regularFaceSize \<equiv> getRegularFaceSize (getRefinement selector)"
  defines "ring \<equiv> \<lambda>face. \<Union>v\<in>set (getFaceVertices level face). set (getVertexFaces level v)"
  assumes depth0: "getDepth level = 0"
    and face: "face < getNumFaces level" "\<not> isFaceHole level face"
    and irregular: "length (getFaceVertices level face) \<noteq> regularFaceSize"
  shows
    "(GetLocalNeighborhoodSize traits subdivT \<noteq> 0 \<longrightarrow>
        ring face \<subseteq> selectedFaces (selectFeatureAdaptiveComponents traits subdivT selector m))
     \<and> (GetLocalNeighborhoodSize traits subdivT = 0 \<longrightarrow>
        face \<in> selectedFaces (selectFeatureAdaptiveComponents traits subdivT selector m))
     \<and> (getFaceVertices level face \<noteq> []
         \<and> (\<forall>v\<in>set (getFaceVertices level face). face \<in> set (getVertexFaces level v)) \<longrightarrow>
        face \<in> selectedFaces (selectFeatureAdaptiveComponents traits subdivT selector m))
     \<and> selectedFaces (inspectFace level m' True numFVarChannels regularFaceSize
                         (GetLocalNeighborhoodSize traits subdivT) face sel)
         = selectedFaces sel
           \<union> (if GetLocalNeighborhoodSize traits subdivT = 0 then {face} else ring face)
     \<and> (GetLocalNeighborhoodSize traits subdivT \<noteq> 0 \<and> selectedFaces selector = {}
         \<and> (\<forall>f<getNumFaces level. f \<noteq> face \<and> \<not> isFaceHole level f \<longrightarrow>
               length (getFaceVertices level f) = regularFaceSize
               \<and> (\<forall>v\<in>set (getFaceVertices level f).
                     rule (getVertexTag level v) = RULE_SMOOTH
                     \<and> \<not> xordinary (getVertexTag level v)
                     \<and> \<not> nonManifold (getVertexTag level v))
               \<and> (\<forall>c<getNumFVarChannels level. doesFaceFVarTopologyMatch level f c)) \<longrightarrow>
        selectedFaces (selectFeatureAdaptiveComponents traits subdivT selector m) = ring face)
     \<and> ((\<forall>v f. f \<in> set (getVertexFaces level v)
                   \<longleftrightarrow> f < getNumFaces level \<and> v \<in> set (getFaceVertices level f)) \<longrightarrow>
        ring face = {f. f < getNumFaces level
                        \<and> set (getFaceVertices level f) \<inter> set (getFaceVertices level face) \<noteq> {}})"
proof -
  let ?nb = "GetLocalNeighborhoodSize traits subdivT"
  let ?result = "selectedFaces (selectFeatureAdaptiveComponents traits subdivT selector m)"
  define contrib where "contrib = (\<lambda>f.
        if isFaceHole level f then {}
        else if getDepth level = 0 \<and> length (getFaceVertices level f) \<noteq> regularFaceSize then
          (if ?nb = 0 then {f} else ring f)
        else if doesFaceHaveFeatures level f m
                \<or> (selectFVarFeatures m
                    \<and> testFVarChannels level f m [0..<getNumFVarChannels level])
        then {f} else {})"
  have result: "?result = selectedFaces selector \<union> (\<Union>f\<in>{..<getNumFaces level}. contrib f)"
    using depth0
    by (simp add: selectFeatureAdaptiveComponents_selected level_def regularFaceSize_def
          ring_def contrib_def)
  have own: "contrib face = (if ?nb = 0 then {face} else ring face)"
    using depth0 face irregular by (simp add: contrib_def)
  have sub: "contrib face \<subseteq> ?result"
    unfolding result using face(1) by blast
  have sub': "(if ?nb = 0 then {face} else ring face) \<subseteq> ?result"
    using sub unfolding own .
  have c1: "?nb \<noteq> 0 \<longrightarrow> ring face \<subseteq> ?result"
    using sub' by (cases "?nb = 0") simp_all
  have c2: "?nb = 0 \<longrightarrow> face \<in> ?result"
    using sub' by (cases "?nb = 0") simp_all
  have c3: "getFaceVertices level face \<noteq> []
         \<and> (\<forall>v\<in>set (getFaceVertices level face). face \<in> set (getVertexFaces level v)) \<longrightarrow>
        face \<in> ?result"
  proof
    assume h: "getFaceVertices level face \<noteq> []
         \<and> (\<forall>v\<in>set (getFaceVertices level face). face \<in> set (getVertexFaces level v))"
    then obtain v where "v \<in> set (getFaceVertices level face)"
      by (cases "getFaceVertices level face") auto
    with h have "face \<in> ring face" by (auto simp: ring_def)
    with c1 c2 show "face \<in> ?result" by (cases "?nb = 0") auto
  qed
  have c4: "selectedFaces (inspectFace level m' True numFVarChannels regularFaceSize ?nb face sel)
         = selectedFaces sel \<union> (if ?nb = 0 then {face} else ring face)"
    using face irregular by (simp add: inspectFace_selected ring_def)
  have c5: "?result = ring face"
    if nb: "?nb \<noteq> 0" and fresh: "selectedFaces selector = {}"
      and regular: "\<forall>f<getNumFaces level. f \<noteq> face \<and> \<not> isFaceHole level f \<longrightarrow>
               length (getFaceVertices level f) = regularFaceSize
               \<and> (\<forall>v\<in>set (getFaceVertices level f).
                     rule (getVertexTag level v) = RULE_SMOOTH
                     \<and> \<not> xordinary (getVertexTag level v)
                     \<and> \<not> nonManifold (getVertexTag level v))
               \<and> (\<forall>c<getNumFVarChannels level. doesFaceFVarTopologyMatch level f c)"
  proof -
    have others: "contrib f = {}" if f: "f < getNumFaces level" "f \<noteq> face" for f
    proof (cases "isFaceHole level f")
      case True
      then show ?thesis by (simp add: contrib_def)
    next
      case False
      with regular f have len: "length (getFaceVertices level f) = regularFaceSize"
        and tags: "\<forall>v\<in>set (getFaceVertices level f).
                     rule (getVertexTag level v) = RULE_SMOOTH
                     \<and> \<not> xordinary (getVertexTag level v)
                     \<and> \<not> nonManifold (getVertexTag level v)"
        and fvar: "\<forall>c<getNumFVarChannels level. doesFaceFVarTopologyMatch level f c"
        by blast+
      have "getFaceVertices level f \<noteq> []"
        using len getRegularFaceSize_pos [of "getRefinement selector"]
        by (auto simp: regularFaceSize_def)
      then have "\<not> doesFaceHaveFeatures level f m"
        using tags by (rule smooth_face_no_features)
      moreover have "\<not> testFVarChannels level f m [0..<getNumFVarChannels level]"
        using fvar by (intro testFVarChannels_match) simp
      ultimately show ?thesis using len by (simp add: contrib_def)
    qed
    have "(\<Union>f\<in>{..<getNumFaces level}. contrib f) = contrib face"
    proof
      show "(\<Union>f\<in>{..<getNumFaces level}. contrib f) \<subseteq> contrib face"
      proof
        fix x assume "x \<in> (\<Union>f\<in>{..<getNumFaces level}. contrib f)"
        then obtain f where f: "f < getNumFaces level" "x \<in> contrib f" by blast
        then have "f = face" using others [of f] by blast
        with f show "x \<in> contrib face" by simp
      qed
      show "contrib face \<subseteq> (\<Union>f\<in>{..<getNumFaces level}. contrib f)"
        using face(1) by blast
    qed
    then show ?thesis
      using result own nb fresh by simp
  qed
  have c6: "(\<forall>v f. f \<in> set (getVertexFaces level v)
                   \<longleftrightarrow> f < getNumFaces level \<and> v \<in> set (getFaceVertices level f)) \<longrightarrow>
        ring face = {f. f < getNumFaces level
                        \<and> set (getFaceVertices level f) \<inter> set (getFaceVertices level face) \<noteq> {}}"
    by (auto simp: ring_def)
  from c1 c2 c3 c4 c5 c6 show ?thesis by blast
qed

theorem irregular_faces_at_depth_0_witness:
  "getDepth pentagonMesh = 0 \<and> \<not> isFaceHole pentagonMesh 0
   \<and> length (getFaceVertices pentagonMesh 0) = 5
   \<and> selectedFaces (selectFeatureAdaptiveComponents sdcTraits SCHEME_CATMARK
        (SparseSelector_new (QuadRefinement pentagonMesh 0)) 1023) = {0, 1}"
proof -
  let ?sel = "SparseSelector_new (QuadRefinement pentagonMesh 0)"
  have h1: "getDepth (parent (getRefinement ?sel)) = 0"
    and h2: "0 < getNumFaces (parent (getRefinement ?sel))"
    and h3: "\<not> isFaceHole (parent (getRefinement ?sel)) 0"
    and h4: "length (getFaceVertices (parent (getRefinement ?sel)) 0)
              \<noteq> getRegularFaceSize (getRefinement ?sel)"
    by (simp_all add: quad_selector_fields pentagonMesh_fields)
  have regular: "\<forall>f<3. f \<noteq> 0 \<longrightarrow>
      length (getFaceVertices pentagonMesh f) = 4"
    by (simp add: pentagonMesh_fields All_less_Suc numeral_3_eq_3)
  have ring: "(\<Union>v\<in>set (getFaceVertices pentagonMesh 0). set (getVertexFaces pentagonMesh v))
      = {0, 1}"
    by (simp add: pentagonMesh_fields)
  show ?thesis
    using irregular_faces_at_depth_0 [OF h1 h2 h3 h4, where traits = sdcTraits
        and subdivT = SCHEME_CATMARK and m = 1023 and m' = 0 and numFVarChannels = 0
        and sel = ?sel] regular
    unfolding quad_selector_fields ring
    by (simp add: pentagonMesh_fields smoothTag_fields catmark_neighborhood)
qed

text \<open>
  C3: the claim holds on the main path (\<open>incomplete_face_no_features\<close>) and fails on
  the face-varying path, which does not test the incomplete bit: a quad of depth 1 whose
  aggregate corner tag is incomplete, rejected by doesFaceHaveFeatures, is selected
  through its face-varying channel.
\<close>

theorem incomplete_face_selected_on_fvar_path:
  "incomplete (BitwiseOr (getFaceVTags incompleteSeamQuad 0))
   \<and> \<not> isFaceHole incompleteSeamQuad 0
   \<and> \<not> doesFaceHaveFeatures incompleteSeamQuad 0 2047
   \<and> \<not> doesFaceFVarTopologyMatch incompleteSeamQuad 0 0
   \<and> doesFaceHaveDistinctFaceVaryingFeatures incompleteSeamQuad 0 2047 0
   \<and> selectedFaces (selectFeatureAdaptiveComponents sdcTraits SCHEME_CATMARK
        (SparseSelector_new (QuadRefinement incompleteSeamQuad 0)) 2047) = {0}"
proof -
  have inc: "incomplete (BitwiseOr (getFaceVTags incompleteSeamQuad 0))"
    by (simp add: getFaceVTags_def incompleteSeamQuad_fields VTag_or_def)
  then have main: "\<not> doesFaceHaveFeatures incompleteSeamQuad 0 2047"
    by (rule incomplete_face_no_features)
  have comp: "rule (BitwiseOr (map (\<lambda>v. getVertexCompositeFVarVTag incompleteSeamQuad v 0)
                 (getFaceVertices incompleteSeamQuad 0))) = RULE_CREASE"
    by (simp add: incompleteSeamQuad_fields VTag_or_def creaseBoundaryTag_def VTag_clear_def)
  have fv: "doesFaceHaveDistinctFaceVaryingFeatures incompleteSeamQuad 0 2047 0"
    unfolding doesFaceHaveDistinctFaceVaryingFeatures_def Let_def comp
    by (simp add: rule_defs)
  have chan: "testFVarChannels incompleteSeamQuad 0 2047 [0..<1]"
    using fv by (simp add: incompleteSeamQuad_fields)
  have "{..<Suc 0} = {0::nat}" by auto
  then have sel: "selectedFaces (selectFeatureAdaptiveComponents sdcTraits SCHEME_CATMARK
        (SparseSelector_new (QuadRefinement incompleteSeamQuad 0)) 2047) = {0}"
    using main chan
    by (simp add: selectFeatureAdaptiveComponents_selected quad_selector_fields
          incompleteSeamQuad_fields mask_2047)
  show ?thesis
    using inc main fv sel by (simp add: incompleteSeamQuad_fields)
qed

section \<open>The loop of adaptive refinement\<close>

text \<open>
  C2: if the selection of the pass at depth i is empty, the loop returns the refiner as it
  was before the pass: the refinement and the child level of the pass are not appended and
  no later pass has an effect. If it is not empty, the pass appends a refinement. On
  return from a RefineAdaptive call that passes the preconditions, maxLevel is the number
  of refinements, which is at most the requested isolation level.
\<close>

theorem RefineAdaptive_stops_on_empty_selection:
  "(i \<le> potentialMaxLevel
      \<and> isSelectionEmpty (adaptiveSelector traits splitType shallowLevel mMore mLess i r) \<longrightarrow>
      RefineAdaptive_loop traits refine splitType ro potentialMaxLevel shallowLevel
        mMore mLess i r = r)
   \<and> (i \<le> potentialMaxLevel
      \<and> \<not> isSelectionEmpty (adaptiveSelector traits splitType shallowLevel mMore mLess i r) \<longrightarrow>
      length (refinements (RefineAdaptive_loop traits refine splitType ro potentialMaxLevel
        shallowLevel mMore mLess i r)) > length (refinements r))
   \<and> (fst (RefineAdaptive traits refine storage options r) = None \<longrightarrow>
        maxLevel (snd (RefineAdaptive traits refine storage options r))
          = length (refinements (snd (RefineAdaptive traits refine storage options r)))
        \<and> length (refinements (snd (RefineAdaptive traits refine storage options r)))
            \<le> isolationLevel options)"
proof -
  have stop: "RefineAdaptive_loop traits refine splitType ro potentialMaxLevel shallowLevel
        mMore mLess i r = r"
    if "isSelectionEmpty (adaptiveSelector traits splitType shallowLevel mMore mLess i r)"
    using that by (subst RefineAdaptive_loop.simps) (simp add: Let_def)
  let ?sel = "adaptiveSelector traits splitType shallowLevel mMore mLess i r"
  let ?rf = "(getRefinement ?sel)\<lparr> selection := selectedFaces ?sel, refinedWith := Some ro \<rparr>"
  let ?r1 = "appendRefinement (appendLevel r (refine ?rf ro)) ?rf"
  have go: "length (refinements (RefineAdaptive_loop traits refine splitType ro potentialMaxLevel
        shallowLevel mMore mLess i r)) > length (refinements r)"
    if h: "i \<le> potentialMaxLevel" "\<not> isSelectionEmpty ?sel"
  proof -
    have step: "RefineAdaptive_loop traits refine splitType ro potentialMaxLevel shallowLevel
        mMore mLess i r
        = RefineAdaptive_loop traits refine splitType ro potentialMaxLevel shallowLevel
            mMore mLess (i + 1) ?r1"
      using h by (subst RefineAdaptive_loop.simps) (simp add: Let_def)
    have mono: "length (refinements s)
        \<le> length (refinements (RefineAdaptive_loop traits refine splitType ro potentialMaxLevel
             shallowLevel mMore mLess j s))" for j s
    proof (induction traits refine splitType ro potentialMaxLevel shallowLevel mMore mLess j s
        rule: RefineAdaptive_loop.induct)
      case (1 traits refine splitType ro n sh mMore mLess j s)
      let ?sel = "adaptiveSelector traits splitType sh mMore mLess j s"
      let ?rf = "(getRefinement ?sel)\<lparr> selection := selectedFaces ?sel, refinedWith := Some ro \<rparr>"
      let ?s1 = "appendRefinement (appendLevel s (refine ?rf ro)) ?rf"
      show ?case
      proof (cases "j \<le> n \<and> \<not> isSelectionEmpty ?sel")
        case True
        have "length (refinements ?s1)
           \<le> length (refinements (RefineAdaptive_loop traits refine splitType ro n sh
                mMore mLess (j + 1) ?s1))"
          using True by (intro "1.IH" [OF _ refl _ refl refl]) simp_all
        moreover have "RefineAdaptive_loop traits refine splitType ro n sh mMore mLess j s
            = RefineAdaptive_loop traits refine splitType ro n sh mMore mLess (j + 1) ?s1"
          using True by (subst RefineAdaptive_loop.simps) (simp add: Let_def)
        ultimately show ?thesis by simp
      next
        case False
        then have "RefineAdaptive_loop traits refine splitType ro n sh mMore mLess j s = s"
          by (subst RefineAdaptive_loop.simps) (auto simp: Let_def)
        then show ?thesis by simp
      qed
    qed
    show ?thesis
      unfolding step using mono [of ?r1 "i + 1"] by simp
  qed
  have ret: "maxLevel (snd (RefineAdaptive traits refine storage options r))
          = length (refinements (snd (RefineAdaptive traits refine storage options r)))
        \<and> length (refinements (snd (RefineAdaptive traits refine storage options r)))
            \<le> isolationLevel options"
    if ok: "fst (RefineAdaptive traits refine storage options r) = None"
  proof -
    have pre: "getNumVertices (levels r ! 0) \<noteq> 0" "refinements r = []"
      "subdivType r = SCHEME_CATMARK"
      using ok by (auto simp: RefineAdaptive_def Let_def split: if_splits)
    let ?r0 = "r\<lparr> isUniform := False, adaptiveOptions := options \<rparr>"
    have "length (refinements (RefineAdaptive_loop traits refine sp rop (isolationLevel options)
             sh a b 1 ?r0)) \<le> isolationLevel options" for sp rop sh a b
      using RefineAdaptive_loop_lengths [of traits refine sp rop "isolationLevel options"
          sh a b 1 ?r0] pre by simp
    then show ?thesis
      using pre by (simp add: RefineAdaptive_success Let_def)
  qed
  from stop go ret show ?thesis by blast
qed

theorem RefineAdaptive_stops_on_empty_selection_witness:
  "fst (RefineAdaptive sdcTraits splitKeepingFaces 0 (AdaptiveOptions_new 3)
          (populateBaseLevel plainQuad (TopologyRefiner_new SCHEME_CATMARK 0))) = None
   \<and> refinements (snd (RefineAdaptive sdcTraits splitKeepingFaces 0 (AdaptiveOptions_new 3)
          (populateBaseLevel plainQuad (TopologyRefiner_new SCHEME_CATMARK 0)))) = []
   \<and> maxLevel (snd (RefineAdaptive sdcTraits splitKeepingFaces 0 (AdaptiveOptions_new 3)
          (populateBaseLevel plainQuad (TopologyRefiner_new SCHEME_CATMARK 0)))) = 0
   \<and> length (refinements (snd (RefineAdaptive sdcTraits splitKeepingFaces 0
          (AdaptiveOptions_new 1)
          (populateBaseLevel pentagonMesh (TopologyRefiner_new SCHEME_CATMARK 0))))) = 1"
proof -
  let ?rP = "populateBaseLevel plainQuad (TopologyRefiner_new SCHEME_CATMARK 0)"
  let ?o3 = "AdaptiveOptions_new 3"
  let ?r0 = "?rP\<lparr> isUniform := False, adaptiveOptions := ?o3 \<rparr>"
  let ?m3 = "adaptiveFeatureMasks sdcTraits 0 ?o3 SCHEME_CATMARK plainQuad"
  let ?ro = "\<lparr> sparse = True, faceVertsFirst = False, minimalTopology = False \<rparr>"
  have empty: "isSelectionEmpty (adaptiveSelector sdcTraits SPLIT_TO_QUADS sh a b (Suc 0) ?r0)"
    for sh a b
    by (simp add: adaptiveSelector_def isSelectionEmpty_def getLevel_def plainQuad_populated
          plainQuad_selection_empty Let_def)
  have loop3: "RefineAdaptive_loop sdcTraits splitKeepingFaces SPLIT_TO_QUADS ?ro 3 3
                 (fst ?m3) (snd ?m3) (Suc 0) ?r0 = ?r0"
    using empty
      RefineAdaptive_stops_on_empty_selection [where i = "Suc 0" and potentialMaxLevel = 3
        and traits = sdcTraits and splitType = SPLIT_TO_QUADS and shallowLevel = 3
        and mMore = "fst ?m3" and mLess = "snd ?m3" and r = ?r0
        and refine = splitKeepingFaces and ro = ?ro]
    by simp
  have run3: "snd (RefineAdaptive sdcTraits splitKeepingFaces 0 ?o3 ?rP)
      = assembleFarLevels (?r0\<lparr> maxLevel := 0 \<rparr>)"
    "fst (RefineAdaptive sdcTraits splitKeepingFaces 0 ?o3 ?rP) = None"
    by (simp_all add: RefineAdaptive_success plainQuad_populated Let_def AdaptiveOptions_new_fields catmark_split
          loop3)
  let ?rQ = "populateBaseLevel pentagonMesh (TopologyRefiner_new SCHEME_CATMARK 0)"
  let ?o1 = "AdaptiveOptions_new 1"
  let ?q0 = "?rQ\<lparr> isUniform := False, adaptiveOptions := ?o1 \<rparr>"
  let ?m1 = "adaptiveFeatureMasks sdcTraits 0 ?o1 SCHEME_CATMARK pentagonMesh"
  have nonempty: "\<not> isSelectionEmpty (adaptiveSelector sdcTraits SPLIT_TO_QUADS sh a b (Suc 0) ?q0)"
    for sh a b
    using pentagonMesh_selection_nonempty
    by (auto simp: adaptiveSelector_def isSelectionEmpty_def getLevel_def
          pentagonMesh_populated Let_def)
  have loop1: "0 < length (refinements (RefineAdaptive_loop sdcTraits splitKeepingFaces
                 SPLIT_TO_QUADS ?ro 1 1 (fst ?m1) (snd ?m1) (Suc 0) ?q0))"
    using nonempty
      RefineAdaptive_stops_on_empty_selection [where i = "Suc 0" and potentialMaxLevel = 1
        and traits = sdcTraits and splitType = SPLIT_TO_QUADS and shallowLevel = 1
        and mMore = "fst ?m1" and mLess = "snd ?m1" and r = ?q0
        and refine = splitKeepingFaces and ro = ?ro]
    by (simp add: pentagonMesh_populated)
  have ok1: "fst (RefineAdaptive sdcTraits splitKeepingFaces 0 ?o1 ?rQ) = None"
    by (simp add: RefineAdaptive_success pentagonMesh_populated Let_def)
  have run1: "refinements (snd (RefineAdaptive sdcTraits splitKeepingFaces 0 ?o1 ?rQ))
      = refinements (RefineAdaptive_loop sdcTraits splitKeepingFaces
                 SPLIT_TO_QUADS ?ro 1 1 (fst ?m1) (snd ?m1) (Suc 0) ?q0)"
    by (simp add: RefineAdaptive_success pentagonMesh_populated Let_def AdaptiveOptions_new_fields catmark_split)
  have le1: "length (refinements (snd (RefineAdaptive sdcTraits splitKeepingFaces 0 ?o1 ?rQ)))
      \<le> 1"
    using ok1
      RefineAdaptive_stops_on_empty_selection [where traits = sdcTraits
        and refine = splitKeepingFaces and storage = 0 and options = ?o1 and r = ?rQ]
    by (simp add: AdaptiveOptions_new_fields)
  have one: "length (refinements (snd (RefineAdaptive sdcTraits splitKeepingFaces 0 ?o1 ?rQ)))
      = 1"
    using loop1 le1 unfolding run1 by linarith
  have none: "refinements (snd (RefineAdaptive sdcTraits splitKeepingFaces 0 ?o3 ?rP)) = []"
    "maxLevel (snd (RefineAdaptive sdcTraits splitKeepingFaces 0 ?o3 ?rP)) = 0"
    unfolding run3 by (simp_all add: plainQuad_populated)
  from run3(2) none one show ?thesis by blast
qed

end
